theory Spec2Isabelle
  imports Complex_Main "HOL-Library.AList"
begin

section \<open>DynamicRPC: the activity builder and the rotation scheduler\<close>

text \<open>
  A shallow embedding of \<^verbatim>\<open>src/userplugins/DynamicRPC/index.tsx\<close>. The module-level
  variables of the plugin, the host's table of running interval timers, the log of
  dispatched events and the log of asset lookups form one record \<open>world\<close>; every
  function of the module takes the settings snapshot it reads, the environment it
  consults (clock, random numbers, asset service) and the world, and returns the new
  world. Each operation runs to completion: the suspension points of the asynchronous
  functions are not interleaved with other events.
\<close>

subsection \<open>JavaScript values\<close>

text \<open>
  The activity is a dynamically shaped object: its properties are enumerated and deleted by
  name. It is modelled as an association list in insertion order. Numbers are integers
  (all numbers of the module are counts, enum members and millisecond instants), strings
  are lists of 8-bit characters.
\<close>

datatype jsval =
    JUndefined
  | JNull
  | JNum int
  | JStr string
  | JArr "jsval list"
  | JObj "(string \<times> jsval) list"

type_synonym js_object = "(string \<times> jsval) list"

text \<open>\<^verbatim>\<open>!v\<close>\<close>

fun falsy :: "jsval \<Rightarrow> bool" where
  "falsy JUndefined = True"
| "falsy JNull = True"
| "falsy (JNum n) = (n = 0)"
| "falsy (JStr s) = (s = [])"
| "falsy (JArr xs) = False"
| "falsy (JObj kvs) = False"

text \<open>\<^verbatim>\<open>v.length === 0\<close>, for a \<open>v\<close> that is neither undefined nor null\<close>

fun length_is_zero :: "jsval \<Rightarrow> bool" where
  "length_is_zero (JStr s) = (s = [])"
| "length_is_zero (JArr xs) = (xs = [])"
| "length_is_zero (JObj kvs) = (map_of kvs ''length'' = Some (JNum 0))"
| "length_is_zero v = False"

text \<open>Truthiness of an optional string and of an optional number of the settings.\<close>

definition truthy_str :: "string option \<Rightarrow> bool" where
  "truthy_str s = (case s of None \<Rightarrow> False | Some t \<Rightarrow> t \<noteq> [])"

definition truthy_num :: "int option \<Rightarrow> bool" where
  "truthy_num n = (case n of None \<Rightarrow> False | Some k \<Rightarrow> k \<noteq> 0)"

definition str_val :: "string option \<Rightarrow> jsval" where
  "str_val s = (case s of None \<Rightarrow> JUndefined | Some t \<Rightarrow> JStr t)"

text \<open>\<^verbatim>\<open>x || undefined\<close> on an optional string\<close>

definition or_undefined :: "string option \<Rightarrow> jsval" where
  "or_undefined s = (if truthy_str s then str_val s else JUndefined)"

text \<open>
  \<^verbatim>\<open>[a, b].filter(isTruthy)\<close> on optional strings; \<open>isTruthy\<close> of \<^verbatim>\<open>@utils/guards\<close>
  is \<^verbatim>\<open>Boolean(item)\<close>.
\<close>

definition isTruthy :: "string option \<Rightarrow> bool" where
  "isTruthy item = truthy_str item"

definition filter_isTruthy :: "string option list \<Rightarrow> jsval list" where
  "filter_isTruthy xs = map str_val (filter isTruthy xs)"

subsection \<open>Splitting the line pool\<close>

text \<open>\<^verbatim>\<open>s.split('\n')\<close>: the empty string splits into one empty line.\<close>

fun split_nl :: "string \<Rightarrow> string list" where
  "split_nl [] = [[]]"
| "split_nl (c # cs) =
     (if c = CHR 0x0A then [] # split_nl cs
      else (case split_nl cs of
              [] \<Rightarrow> [[c]]
            | l # ls \<Rightarrow> (c # l) # ls))"

text \<open>
  The white space and line terminator characters that \<^verbatim>\<open>trim\<close> removes, as far as they
  are 8-bit characters.
\<close>

definition is_ws :: "char \<Rightarrow> bool" where
  "is_ws c = (c \<in> set [CHR 0x09, CHR 0x0A, CHR 0x0B, CHR 0x0C, CHR 0x0D, CHR 0x20, CHR 0xA0])"

definition trim :: "string \<Rightarrow> string" where
  "trim s = rev (dropWhile is_ws (rev (dropWhile is_ws s)))"

text \<open>\<^verbatim>\<open>src.split('\n').filter(line => line.trim() !== '')\<close>\<close>

definition parse_lines :: "string \<Rightarrow> string list" where
  "parse_lines src = filter (\<lambda>line. trim line \<noteq> []) (split_nl src)"

text \<open>\<^verbatim>\<open>lines[i]\<close>: reading past the end of an array gives undefined.\<close>

definition js_index :: "string list \<Rightarrow> nat \<Rightarrow> string option" where
  "js_index xs i = (if i < length xs then Some (xs ! i) else None)"

text \<open>\<^verbatim>\<open>Math.floor(r * n)\<close> for a draw \<open>r\<close> of \<^verbatim>\<open>Math.random()\<close>\<close>

definition floor_random :: "rat \<Rightarrow> nat \<Rightarrow> nat" where
  "floor_random r n = nat \<lfloor>r * of_nat n\<rfloor>"

text \<open>
  \<^verbatim>\<open>last.length !== lines.length || !last.every((v, i) => v === lines[i])\<close>
\<close>

definition lines_changed :: "string list \<Rightarrow> string list \<Rightarrow> bool" where
  "lines_changed lastLines lines =
     (length lastLines \<noteq> length lines
      \<or> \<not> list_all (\<lambda>(v, i). js_index lines i = Some v) (zip lastLines [0..<length lastLines]))"

subsection \<open>Settings\<close>

datatype RandomMode = Disable | Yes | No

datatype TimestampMode = NONE | NOW | TIME | CUSTOM

text \<open>
  The members of \<^verbatim>\<open>ActivityType\<close> used by the module. The enum is declared in
  \<^verbatim>\<open>@vencord/discord-types/enums\<close>; the values are those of the Discord activity types.
\<close>

definition ActivityType_PLAYING :: int where
  "ActivityType_PLAYING = 0"

definition ActivityType_STREAMING :: int where
  "ActivityType_STREAMING = 1"

record config =
  appID :: "string option"
  appName :: "string option"
  details :: "string option"
  detailsRandomLines :: "string option"
  detailsRandomMode :: "RandomMode option"
  detailsRandomInterval :: "int option"
  detailsURL :: "string option"
  state :: "string option"
  stateRandomLines :: "string option"
  stateRandomMode :: "RandomMode option"
  stateRandomInterval :: "int option"
  stateURL :: "string option"
  type :: "int option"
  streamLink :: "string option"
  timestampMode :: "TimestampMode option"
  startTime :: "int option"
  endTime :: "int option"
  imageBig :: "string option"
  imageBigURL :: "string option"
  imageBigTooltip :: "string option"
  imageSmall :: "string option"
  imageSmallURL :: "string option"
  imageSmallTooltip :: "string option"
  buttonOneText :: "string option"
  buttonOneURL :: "string option"
  buttonTwoText :: "string option"
  buttonTwoURL :: "string option"
  partySize :: "int option"
  partyMaxSize :: "int option"

subsection \<open>Environment and world\<close>

datatype rpc_error = AssetFetchRejected

text \<open>
  What an operation reads from outside: the clock, the draws of \<^verbatim>\<open>Math.random()\<close> at
  its three call sites, and the answer of \<^verbatim>\<open>ApplicationAssetUtils.fetchAssetIds\<close>
  (a rejected promise is \<open>Inl\<close>).
\<close>

record env =
  dateNow :: int
  getHours :: int
  getMinutes :: int
  getSeconds :: int
  randomTick :: rat
  randomDetails :: rat
  randomState :: rat
  fetchAssetIds :: "string option \<Rightarrow> string list \<Rightarrow> rpc_error + jsval list"

datatype lane = DetailsLane | StateLane

text \<open>
  A running interval timer: the lane whose callback it runs, the mode and the pool that
  the callback's closure captured, and the period in milliseconds.
\<close>

record timer =
  t_lane :: lane
  t_mode :: RandomMode
  t_lines :: "string list"
  t_delay :: int

record event =
  ev_type :: string
  ev_activity :: jsval
  ev_socketId :: string

record world =
  detailsCurrentIndex :: nat
  stateCurrentIndex :: nat
  detailsIntervalId :: "nat option"
  stateIntervalId :: "nat option"
  lastDetailsLines :: "string list"
  lastStateLines :: "string list"
  nowModeStartTime :: "int option"
  intervals :: "(nat \<times> timer) list"
  nextIntervalId :: nat
  dispatched :: "event list"
  fetched :: "(string option \<times> string list) list"

text \<open>The module as loaded: the initial values of its variables, nothing running.\<close>

definition initial_world :: world where
  "initial_world =
     \<lparr>detailsCurrentIndex = 0, stateCurrentIndex = 0,
      detailsIntervalId = None, stateIntervalId = None,
      lastDetailsLines = [], lastStateLines = [],
      nowModeStartTime = None,
      intervals = [], nextIntervalId = 1, dispatched = [], fetched = []\<rparr>"

subsection \<open>Timers of the host\<close>

text \<open>
  \<^verbatim>\<open>setInterval\<close> hands out a new handle and enters the timer in the table;
  \<^verbatim>\<open>clearInterval\<close> removes it. Handles are non-null and truthy, so the module's
  test \<^verbatim>\<open>if (detailsIntervalId)\<close> is the test for a stored handle.
\<close>

definition setInterval :: "timer \<Rightarrow> world \<Rightarrow> nat \<times> world" where
  "setInterval t w =
     (nextIntervalId w,
      w\<lparr>intervals := (nextIntervalId w, t) # intervals w,
        nextIntervalId := Suc (nextIntervalId w)\<rparr>)"

definition clearInterval :: "nat \<Rightarrow> world \<Rightarrow> world" where
  "clearInterval h w = w\<lparr>intervals := filter (\<lambda>(h', t). h' \<noteq> h) (intervals w)\<rparr>"

subsection \<open>\<^verbatim>\<open>clearRotationIntervals\<close> and \<^verbatim>\<open>setupRotationIntervals\<close>\<close>

definition clearRotationIntervals :: "world \<Rightarrow> world" where
  "clearRotationIntervals w =
     (let w1 = (case detailsIntervalId w of
                  None \<Rightarrow> w
                | Some h \<Rightarrow> (clearInterval h w)\<lparr>detailsIntervalId := None\<rparr>)
      in (case stateIntervalId w1 of
            None \<Rightarrow> w1
          | Some h \<Rightarrow> (clearInterval h w1)\<lparr>stateIntervalId := None\<rparr>))"

text \<open>
  The guard of both arming blocks:
  \<^verbatim>\<open>mode && mode !== "disable" && lines && interval && interval > 0\<close>.
\<close>

definition arm_guard :: "RandomMode option \<Rightarrow> string option \<Rightarrow> int option \<Rightarrow> bool" where
  "arm_guard mode src interval =
     (mode \<noteq> None \<and> mode \<noteq> Some Disable \<and> truthy_str src \<and> truthy_num interval
      \<and> 0 < the interval)"

text \<open>The block "Setup Details rotation".\<close>

definition setupDetails :: "config \<Rightarrow> world \<Rightarrow> world" where
  "setupDetails cfg w =
     (if arm_guard (detailsRandomMode cfg) (detailsRandomLines cfg) (detailsRandomInterval cfg)
      then
        (let lines = parse_lines (the (detailsRandomLines cfg)) in
         if 1 < length lines then
           (let (h, w1) =
                  setInterval
                    \<lparr>t_lane = DetailsLane, t_mode = the (detailsRandomMode cfg),
                     t_lines = lines, t_delay = the (detailsRandomInterval cfg) * 1000\<rparr>
                    (w\<lparr>lastDetailsLines := lines\<rparr>)
            in w1\<lparr>detailsIntervalId := Some h\<rparr>)
         else w)
      else w)"

text \<open>The block "Setup State rotation".\<close>

definition setupState :: "config \<Rightarrow> world \<Rightarrow> world" where
  "setupState cfg w =
     (if arm_guard (stateRandomMode cfg) (stateRandomLines cfg) (stateRandomInterval cfg)
      then
        (let lines = parse_lines (the (stateRandomLines cfg)) in
         if 1 < length lines then
           (let (h, w1) =
                  setInterval
                    \<lparr>t_lane = StateLane, t_mode = the (stateRandomMode cfg),
                     t_lines = lines, t_delay = the (stateRandomInterval cfg) * 1000\<rparr>
                    (w\<lparr>lastStateLines := lines\<rparr>)
            in w1\<lparr>stateIntervalId := Some h\<rparr>)
         else w)
      else w)"

definition setupRotationIntervals :: "config \<Rightarrow> world \<Rightarrow> world" where
  "setupRotationIntervals cfg w = setupState cfg (setupDetails cfg (clearRotationIntervals w))"

subsection \<open>\<^verbatim>\<open>createActivity\<close>\<close>

text \<open>
  The guard of both resolution blocks: \<^verbatim>\<open>mode && mode !== "disable" && lines\<close>.
\<close>

definition rotation_on :: "RandomMode option \<Rightarrow> string option \<Rightarrow> bool" where
  "rotation_on mode src = (mode \<noteq> None \<and> mode \<noteq> Some Disable \<and> truthy_str src)"

text \<open>\<^verbatim>\<open>finalDetails\<close>: the static text, or a line of the pool.\<close>

definition resolveDetails :: "config \<Rightarrow> env \<Rightarrow> world \<Rightarrow> string option \<times> world" where
  "resolveDetails cfg env w =
     (if rotation_on (detailsRandomMode cfg) (detailsRandomLines cfg) then
        (let lines = parse_lines (the (detailsRandomLines cfg)) in
         if 0 < length lines then
           (let w1 = (if lines_changed (lastDetailsLines w) lines
                      then w\<lparr>lastDetailsLines := lines, detailsCurrentIndex := 0\<rparr>
                      else w)
            in if detailsRandomMode cfg = Some Yes
               then (js_index lines (floor_random (randomDetails env) (length lines)), w1)
               else (js_index lines (detailsCurrentIndex w1 mod length lines), w1))
         else (details cfg, w))
      else (details cfg, w))"

text \<open>\<^verbatim>\<open>finalState\<close>\<close>

definition resolveState :: "config \<Rightarrow> env \<Rightarrow> world \<Rightarrow> string option \<times> world" where
  "resolveState cfg env w =
     (if rotation_on (stateRandomMode cfg) (stateRandomLines cfg) then
        (let lines = parse_lines (the (stateRandomLines cfg)) in
         if 0 < length lines then
           (let w1 = (if lines_changed (lastStateLines w) lines
                      then w\<lparr>lastStateLines := lines, stateCurrentIndex := 0\<rparr>
                      else w)
            in if stateRandomMode cfg = Some Yes
               then (js_index lines (floor_random (randomState env) (length lines)), w1)
               else (js_index lines (stateCurrentIndex w1 mod length lines), w1))
         else (state cfg, w))
      else (state cfg, w))"

text \<open>The object literal that starts the activity, and the stream link.\<close>

definition base_activity :: "config \<Rightarrow> string option \<Rightarrow> string option \<Rightarrow> js_object" where
  "base_activity cfg finalDetails finalState =
     (let activity =
        [(''application_id'', if truthy_str (appID cfg) then str_val (appID cfg) else JStr ''0''),
         (''name'', str_val (appName cfg)),
         (''state'', str_val finalState),
         (''details'', str_val finalDetails),
         (''type'', JNum (case type cfg of None \<Rightarrow> ActivityType_PLAYING | Some t \<Rightarrow> t)),
         (''flags'', JNum 1)]
      in if type cfg = Some ActivityType_STREAMING
         then AList.update ''url'' (str_val (streamLink cfg)) activity
         else activity)"

text \<open>The \<^verbatim>\<open>switch (timestampMode)\<close>.\<close>

definition set_timestamps :: "config \<Rightarrow> env \<Rightarrow> js_object \<Rightarrow> world \<Rightarrow> js_object \<times> world" where
  "set_timestamps cfg env activity w =
     (case timestampMode cfg of
        Some NOW \<Rightarrow>
          (let w1 = (if \<not> truthy_num (nowModeStartTime w)
                     then w\<lparr>nowModeStartTime := Some (dateNow env)\<rparr>
                     else w)
           in (AList.update ''timestamps''
                 (JObj [(''start'', case nowModeStartTime w1 of None \<Rightarrow> JNull | Some t \<Rightarrow> JNum t)])
                 activity, w1))
      | Some TIME \<Rightarrow>
          (AList.update ''timestamps''
             (JObj [(''start'',
                     JNum (dateNow env
                           - (getHours env * 3600 + getMinutes env * 60 + getSeconds env) * 1000))])
             activity, w)
      | Some CUSTOM \<Rightarrow>
          (if truthy_num (startTime cfg) \<or> truthy_num (endTime cfg) then
             (AList.update ''timestamps''
                (JObj ((if truthy_num (startTime cfg) then [(''start'', JNum (the (startTime cfg)))] else [])
                       @ (if truthy_num (endTime cfg) then [(''end'', JNum (the (endTime cfg)))] else [])))
                activity, w)
           else (activity, w))
      | _ \<Rightarrow> (activity, w))"

text \<open>\<^verbatim>\<open>details_url\<close>, \<^verbatim>\<open>state_url\<close>, and the two button lists.\<close>

definition set_urls :: "config \<Rightarrow> js_object \<Rightarrow> js_object" where
  "set_urls cfg activity =
     (let a1 = (if truthy_str (detailsURL cfg)
                then AList.update ''details_url'' (str_val (detailsURL cfg)) activity
                else activity)
      in if truthy_str (stateURL cfg)
         then AList.update ''state_url'' (str_val (stateURL cfg)) a1
         else a1)"

definition set_buttons :: "config \<Rightarrow> js_object \<Rightarrow> js_object" where
  "set_buttons cfg activity =
     (if truthy_str (buttonOneText cfg) then
        AList.update ''metadata''
          (JObj [(''button_urls'', JArr (filter_isTruthy [buttonOneURL cfg, buttonTwoURL cfg]))])
          (AList.update ''buttons''
             (JArr (filter_isTruthy [buttonOneText cfg, buttonTwoText cfg])) activity)
      else activity)"

text \<open>
  \<^verbatim>\<open>getApplicationAsset\<close>: one call of the asset service with the application id of the
  settings, recorded in the world; the first identifier of the answer.
\<close>

definition getApplicationAsset :: "config \<Rightarrow> env \<Rightarrow> string \<Rightarrow> world \<Rightarrow> world \<times> (rpc_error + jsval)" where
  "getApplicationAsset cfg env key w =
     (w\<lparr>fetched := fetched w @ [(appID cfg, [key])]\<rparr>,
      case fetchAssetIds env (appID cfg) [key] of
        Inl e \<Rightarrow> Inl e
      | Inr ids \<Rightarrow> Inr (case ids of [] \<Rightarrow> JUndefined | x # _ \<Rightarrow> x))"

text \<open>The properties of \<^verbatim>\<open>activity.assets\<close>, for the spread \<^verbatim>\<open>...activity.assets\<close>.\<close>

definition assets_of :: "js_object \<Rightarrow> js_object" where
  "assets_of activity = (case map_of activity ''assets'' of Some (JObj kvs) \<Rightarrow> kvs | _ \<Rightarrow> [])"

definition set_imageBig :: "config \<Rightarrow> env \<Rightarrow> js_object \<Rightarrow> world \<Rightarrow> world \<times> (rpc_error + js_object)" where
  "set_imageBig cfg env activity w =
     (if truthy_str (imageBig cfg) then
        (case getApplicationAsset cfg env (the (imageBig cfg)) w of
           (w1, Inl e) \<Rightarrow> (w1, Inl e)
         | (w1, Inr img) \<Rightarrow>
             (w1, Inr (AList.update ''assets''
                         (JObj [(''large_image'', img),
                                (''large_text'', or_undefined (imageBigTooltip cfg)),
                                (''large_url'', or_undefined (imageBigURL cfg))])
                         activity)))
      else (w, Inr activity))"

definition set_imageSmall :: "config \<Rightarrow> env \<Rightarrow> js_object \<Rightarrow> world \<Rightarrow> world \<times> (rpc_error + js_object)" where
  "set_imageSmall cfg env activity w =
     (if truthy_str (imageSmall cfg) then
        (case getApplicationAsset cfg env (the (imageSmall cfg)) w of
           (w1, Inl e) \<Rightarrow> (w1, Inl e)
         | (w1, Inr img) \<Rightarrow>
             (w1, Inr (AList.update ''assets''
                         (JObj (AList.update ''small_url'' (or_undefined (imageSmallURL cfg))
                                 (AList.update ''small_text'' (or_undefined (imageSmallTooltip cfg))
                                   (AList.update ''small_image'' img (assets_of activity)))))
                         activity)))
      else (w, Inr activity))"

definition set_party :: "config \<Rightarrow> js_object \<Rightarrow> js_object" where
  "set_party cfg activity =
     (if truthy_num (partyMaxSize cfg) \<and> truthy_num (partySize cfg) then
        AList.update ''party''
          (JObj [(''size'', JArr [JNum (the (partySize cfg)), JNum (the (partyMaxSize cfg))])])
          activity
      else activity)"

text \<open>
  The final loop: every property but \<^verbatim>\<open>type\<close> whose value is falsy or has length 0 is
  deleted.
\<close>

definition prune :: "js_object \<Rightarrow> js_object" where
  "prune activity =
     filter (\<lambda>(k, v). k = ''type'' \<or> \<not> (falsy v \<or> length_is_zero v)) activity"

text \<open>
  \<^verbatim>\<open>createActivity\<close>: the new world, and the rejection (\<open>Inl\<close>) or the result, where
  \<open>None\<close> is the \<^verbatim>\<open>undefined\<close> of the early return.
\<close>

definition createActivity :: "config \<Rightarrow> env \<Rightarrow> world \<Rightarrow> world \<times> (rpc_error + js_object option)" where
  "createActivity cfg env w =
     (if \<not> truthy_str (appName cfg) then (w, Inr None)
      else
        (let (finalDetails, w1) = resolveDetails cfg env w;
             (finalState, w2) = resolveState cfg env w1;
             a0 = base_activity cfg finalDetails finalState;
             (a1, w3) = set_timestamps cfg env a0 w2;
             a2 = set_buttons cfg (set_urls cfg a1)
         in (case set_imageBig cfg env a2 w3 of
               (w4, Inl e) \<Rightarrow> (w4, Inl e)
             | (w4, Inr a3) \<Rightarrow>
                 (case set_imageSmall cfg env a3 w4 of
                    (w5, Inl e) \<Rightarrow> (w5, Inl e)
                  | (w5, Inr a4) \<Rightarrow> (w5, Inr (Some (prune (set_party cfg a4))))))))"

subsection \<open>\<^verbatim>\<open>setRpc\<close>, \<^verbatim>\<open>start\<close>, \<^verbatim>\<open>stop\<close> and the timer callbacks\<close>

definition dispatch :: "event \<Rightarrow> world \<Rightarrow> world" where
  "dispatch ev w = w\<lparr>dispatched := dispatched w @ [ev]\<rparr>"

text \<open>
  \<^verbatim>\<open>setRpc(disable)\<close>. When \<^verbatim>\<open>createActivity\<close> rejects, so does \<^verbatim>\<open>setRpc\<close>, before the
  dispatch.
\<close>

definition setRpc :: "config \<Rightarrow> env \<Rightarrow> bool \<Rightarrow> world \<Rightarrow> world \<times> (rpc_error + unit)" where
  "setRpc cfg env disable w =
     (let w1 = (if \<not> disable then setupRotationIntervals cfg w else clearRotationIntervals w)
      in (case createActivity cfg env w1 of
            (w2, Inl e) \<Rightarrow> (w2, Inl e)
          | (w2, Inr activity) \<Rightarrow>
              (dispatch
                 \<lparr>ev_type = ''LOCAL_ACTIVITY_UPDATE'',
                  ev_activity =
                    (if \<not> disable
                     then (case activity of None \<Rightarrow> JUndefined | Some a \<Rightarrow> JObj a)
                     else JNull),
                  ev_socketId = ''CustomRPC''\<rparr> w2,
               Inr ())))"

text \<open>
  \<^verbatim>\<open>start\<close> and \<^verbatim>\<open>stop\<close> call \<^verbatim>\<open>setRpc\<close> and drop its promise: they return
  normally whether it is fulfilled or rejected.
\<close>

definition start :: "config \<Rightarrow> env \<Rightarrow> world \<Rightarrow> world" where
  "start cfg env w =
     (let w1 = (if timestampMode cfg = Some NOW
                then w\<lparr>nowModeStartTime := Some (dateNow env)\<rparr>
                else w);
          w2 = setupRotationIntervals cfg w1
      in fst (setRpc cfg env False w2))"

definition stop :: "config \<Rightarrow> env \<Rightarrow> world \<Rightarrow> world" where
  "stop cfg env w =
     (let w1 = clearRotationIntervals w;
          w2 = w1\<lparr>nowModeStartTime := None\<rparr>
      in fst (setRpc cfg env True w2))"

text \<open>
  The callback of a lane's timer, with the mode and the pool of its closure: it moves the
  lane's index and calls \<^verbatim>\<open>setRpc()\<close>.
\<close>

definition callback :: "config \<Rightarrow> env \<Rightarrow> timer \<Rightarrow> world \<Rightarrow> world" where
  "callback cfg env t w =
     (let n = length (t_lines t);
          w1 = (case t_lane t of
                  DetailsLane \<Rightarrow>
                    w\<lparr>detailsCurrentIndex :=
                        (if t_mode t = Yes then floor_random (randomTick env) n
                         else (detailsCurrentIndex w + 1) mod n)\<rparr>
                | StateLane \<Rightarrow>
                    w\<lparr>stateCurrentIndex :=
                        (if t_mode t = Yes then floor_random (randomTick env) n
                         else (stateCurrentIndex w + 1) mod n)\<rparr>)
      in fst (setRpc cfg env False w1))"

text \<open>A tick of the timer with handle \<open>h\<close>; only a running timer can tick.\<close>

definition fire :: "config \<Rightarrow> env \<Rightarrow> nat \<Rightarrow> world \<Rightarrow> world option" where
  "fire cfg env h w =
     (case map_of (intervals w) h of
        None \<Rightarrow> None
      | Some t \<Rightarrow> Some (callback cfg env t w))"

text \<open>The number of dispatched events that carry \<^verbatim>\<open>activity: null\<close>.\<close>

definition null_events :: "world \<Rightarrow> nat" where
  "null_events w = length (filter (\<lambda>ev. ev_activity ev = JNull) (dispatched w))"

subsection \<open>Sample settings\<close>

text \<open>No setting stored at all.\<close>

definition no_settings :: config where
  "no_settings =
     \<lparr>appID = None, appName = None, details = None, detailsRandomLines = None,
      detailsRandomMode = None, detailsRandomInterval = None, detailsURL = None,
      state = None, stateRandomLines = None, stateRandomMode = None,
      stateRandomInterval = None, stateURL = None, type = None, streamLink = None,
      timestampMode = None, startTime = None, endTime = None, imageBig = None,
      imageBigURL = None, imageBigTooltip = None, imageSmall = None, imageSmallURL = None,
      imageSmallTooltip = None, buttonOneText = None, buttonOneURL = None,
      buttonTwoText = None, buttonTwoURL = None, partySize = None, partyMaxSize = None\<rparr>"

text \<open>
  A clock at 5000 ms, one second after local midnight; random draws of 0; an asset
  service that answers every key with an identifier.
\<close>

definition sample_env :: env where
  "sample_env =
     \<lparr>dateNow = 5000, getHours = 0, getMinutes = 0, getSeconds = 1,
      randomTick = 0, randomDetails = 0, randomState = 0,
      fetchAssetIds = (\<lambda>app keys. Inr (map JStr keys))\<rparr>"

text \<open>
  Both lanes rotate in sequence: the details over three lines every second, the state
  over two lines every two seconds; the timestamp mode is NOW.
\<close>

definition rotating_settings :: config where
  "rotating_settings =
     no_settings
       \<lparr>appName := Some ''App'',
        detailsRandomLines := Some [CHR ''a'', CHR 0x0A, CHR ''b'', CHR 0x0A, CHR ''c''],
        detailsRandomMode := Some No,
        detailsRandomInterval := Some 1,
        stateRandomLines := Some [CHR ''x'', CHR 0x0A, CHR ''y''],
        stateRandomMode := Some No,
        stateRandomInterval := Some 2,
        timestampMode := Some NOW\<rparr>"

text \<open>A first button without a URL, and a second URL without a button.\<close>

definition play_settings :: config where
  "play_settings =
     no_settings\<lparr>appName := Some ''App'', buttonOneText := Some ''Play'',
                 buttonTwoURL := Some ''http://x''\<rparr>"

text \<open>Timestamp mode NOW and nothing else.\<close>

definition now_settings :: config where
  "now_settings = no_settings\<lparr>appName := Some ''App'', timestampMode := Some NOW\<rparr>"

text \<open>An empty details text and the activity type 0.\<close>

definition blank_details_settings :: config where
  "blank_details_settings =
     no_settings\<lparr>appName := Some ''App'', details := Some [], type := Some 0\<rparr>"

text \<open>
  Two-line pools in sequential mode for both lanes, and a world whose recorded pools are
  older: the details lane stands at index 2 of a three-line pool.
\<close>

definition two_line_settings :: config where
  "two_line_settings =
     no_settings
       \<lparr>appName := Some ''App'',
        detailsRandomLines := Some [CHR ''p'', CHR 0x0A, CHR ''q''],
        detailsRandomMode := Some No,
        stateRandomLines := Some [CHR ''x'', CHR 0x0A, CHR ''y''],
        stateRandomMode := Some No\<rparr>"

definition stale_world :: world where
  "stale_world =
     initial_world
       \<lparr>detailsCurrentIndex := 2, lastDetailsLines := [''a'', ''b'', ''c''],
        stateCurrentIndex := 1, lastStateLines := [''x'']\<rparr>"

text \<open>A big image, so that a build asks the asset service.\<close>

definition image_settings :: config where
  "image_settings = no_settings\<lparr>appName := Some ''App'', imageBig := Some ''logo''\<rparr>"

text \<open>The settings \<open>now_settings\<close> after the timestamp mode has been changed to NONE.\<close>

definition none_mode_settings :: config where
  "none_mode_settings = now_settings\<lparr>timestampMode := Some NONE\<rparr>"

section \<open>Properties\<close>

subsection \<open>Line pools\<close>

lemma lines_changed_iff: "lines_changed xs ys \<longleftrightarrow> xs \<noteq> ys"
proof (cases "length xs = length ys")
  case False
  then show ?thesis by (auto simp: lines_changed_def)
next
  case True
  have "list_all (\<lambda>(v, i). js_index ys i = Some v) (zip xs [0..<length xs])
        \<longleftrightarrow> (\<forall>i<length xs. js_index ys i = Some (xs ! i))"
    by (fastforce simp: list_all_iff set_zip)
  also have "\<dots> \<longleftrightarrow> (\<forall>i<length xs. ys ! i = xs ! i)"
    using True by (simp add: js_index_def)
  also have "\<dots> \<longleftrightarrow> xs = ys"
    using True by (auto simp: list_eq_iff_nth_eq)
  finally show ?thesis using True by (simp add: lines_changed_def)
qed

lemma parse_lines_nonblank: "l \<in> set (parse_lines src) \<Longrightarrow> l \<noteq> []"
  by (auto simp: parse_lines_def trim_def)

lemma parse_pq: "parse_lines [CHR ''p'', CHR 0x0A, CHR ''q''] = [''p'', ''q'']"
  by (simp add: parse_lines_def trim_def is_ws_def)

lemma parse_xy: "parse_lines [CHR ''x'', CHR 0x0A, CHR ''y''] = [''x'', ''y'']"
  by (simp add: parse_lines_def trim_def is_ws_def)

lemma parse_abc: "parse_lines [CHR ''a'', CHR 0x0A, CHR ''b'', CHR 0x0A, CHR ''c''] = [''a'', ''b'', ''c'']"
  by (simp add: parse_lines_def trim_def is_ws_def)

subsection \<open>What each step leaves alone\<close>

lemma clear_fields [simp]:
  "detailsIntervalId (clearRotationIntervals w) = None"
  "stateIntervalId (clearRotationIntervals w) = None"
  "detailsCurrentIndex (clearRotationIntervals w) = detailsCurrentIndex w"
  "stateCurrentIndex (clearRotationIntervals w) = stateCurrentIndex w"
  "lastDetailsLines (clearRotationIntervals w) = lastDetailsLines w"
  "lastStateLines (clearRotationIntervals w) = lastStateLines w"
  "nowModeStartTime (clearRotationIntervals w) = nowModeStartTime w"
  "dispatched (clearRotationIntervals w) = dispatched w"
  "fetched (clearRotationIntervals w) = fetched w"
  "nextIntervalId (clearRotationIntervals w) = nextIntervalId w"
  by (simp_all add: clearRotationIntervals_def clearInterval_def Let_def split: option.splits)

lemma setupDetails_fields [simp]:
  "stateIntervalId (setupDetails cfg w) = stateIntervalId w"
  "detailsCurrentIndex (setupDetails cfg w) = detailsCurrentIndex w"
  "stateCurrentIndex (setupDetails cfg w) = stateCurrentIndex w"
  "lastStateLines (setupDetails cfg w) = lastStateLines w"
  "nowModeStartTime (setupDetails cfg w) = nowModeStartTime w"
  "dispatched (setupDetails cfg w) = dispatched w"
  "fetched (setupDetails cfg w) = fetched w"
  by (simp_all add: setupDetails_def setInterval_def Let_def)

lemma setupState_fields [simp]:
  "detailsIntervalId (setupState cfg w) = detailsIntervalId w"
  "detailsCurrentIndex (setupState cfg w) = detailsCurrentIndex w"
  "stateCurrentIndex (setupState cfg w) = stateCurrentIndex w"
  "lastDetailsLines (setupState cfg w) = lastDetailsLines w"
  "nowModeStartTime (setupState cfg w) = nowModeStartTime w"
  "dispatched (setupState cfg w) = dispatched w"
  "fetched (setupState cfg w) = fetched w"
  by (simp_all add: setupState_def setInterval_def Let_def)

lemma setup_fields [simp]:
  "detailsCurrentIndex (setupRotationIntervals cfg w) = detailsCurrentIndex w"
  "stateCurrentIndex (setupRotationIntervals cfg w) = stateCurrentIndex w"
  "nowModeStartTime (setupRotationIntervals cfg w) = nowModeStartTime w"
  "dispatched (setupRotationIntervals cfg w) = dispatched w"
  "fetched (setupRotationIntervals cfg w) = fetched w"
  by (simp_all add: setupRotationIntervals_def)

lemma resolveDetails_fields [simp]:
  "stateCurrentIndex (snd (resolveDetails cfg env w)) = stateCurrentIndex w"
  "lastStateLines (snd (resolveDetails cfg env w)) = lastStateLines w"
  "detailsIntervalId (snd (resolveDetails cfg env w)) = detailsIntervalId w"
  "stateIntervalId (snd (resolveDetails cfg env w)) = stateIntervalId w"
  "nowModeStartTime (snd (resolveDetails cfg env w)) = nowModeStartTime w"
  "intervals (snd (resolveDetails cfg env w)) = intervals w"
  "nextIntervalId (snd (resolveDetails cfg env w)) = nextIntervalId w"
  "dispatched (snd (resolveDetails cfg env w)) = dispatched w"
  "fetched (snd (resolveDetails cfg env w)) = fetched w"
  by (simp_all add: resolveDetails_def Let_def)

lemma resolveState_fields [simp]:
  "detailsCurrentIndex (snd (resolveState cfg env w)) = detailsCurrentIndex w"
  "lastDetailsLines (snd (resolveState cfg env w)) = lastDetailsLines w"
  "detailsIntervalId (snd (resolveState cfg env w)) = detailsIntervalId w"
  "stateIntervalId (snd (resolveState cfg env w)) = stateIntervalId w"
  "nowModeStartTime (snd (resolveState cfg env w)) = nowModeStartTime w"
  "intervals (snd (resolveState cfg env w)) = intervals w"
  "nextIntervalId (snd (resolveState cfg env w)) = nextIntervalId w"
  "dispatched (snd (resolveState cfg env w)) = dispatched w"
  "fetched (snd (resolveState cfg env w)) = fetched w"
  by (simp_all add: resolveState_def Let_def)

lemma set_timestamps_fields [simp]:
  "detailsCurrentIndex (snd (set_timestamps cfg env a w)) = detailsCurrentIndex w"
  "stateCurrentIndex (snd (set_timestamps cfg env a w)) = stateCurrentIndex w"
  "lastDetailsLines (snd (set_timestamps cfg env a w)) = lastDetailsLines w"
  "lastStateLines (snd (set_timestamps cfg env a w)) = lastStateLines w"
  "detailsIntervalId (snd (set_timestamps cfg env a w)) = detailsIntervalId w"
  "stateIntervalId (snd (set_timestamps cfg env a w)) = stateIntervalId w"
  "intervals (snd (set_timestamps cfg env a w)) = intervals w"
  "nextIntervalId (snd (set_timestamps cfg env a w)) = nextIntervalId w"
  "dispatched (snd (set_timestamps cfg env a w)) = dispatched w"
  "fetched (snd (set_timestamps cfg env a w)) = fetched w"
  by (simp_all add: set_timestamps_def Let_def split: option.splits TimestampMode.splits)

lemma set_imageBig_world: "\<exists>fs. fst (set_imageBig cfg env a w) = w\<lparr>fetched := fs\<rparr>"
  by (cases w) (simp add: set_imageBig_def getApplicationAsset_def split: sum.splits)

lemma set_imageSmall_world: "\<exists>fs. fst (set_imageSmall cfg env a w) = w\<lparr>fetched := fs\<rparr>"
  by (cases w) (simp add: set_imageSmall_def getApplicationAsset_def split: sum.splits)

lemma set_timestamps_world:
  "snd (set_timestamps cfg env a w) = snd (set_timestamps cfg env [] w)"
  by (simp add: set_timestamps_def Let_def split: option.splits TimestampMode.splits)

lemma createActivity_world:
  "\<exists>fs. fst (createActivity cfg env w) =
     (if truthy_str (appName cfg)
      then snd (set_timestamps cfg env [] (snd (resolveState cfg env (snd (resolveDetails cfg env w)))))
      else w)\<lparr>fetched := fs\<rparr>"
proof (cases "truthy_str (appName cfg)")
  case False
  then have "fst (createActivity cfg env w) =
     (if truthy_str (appName cfg)
      then snd (set_timestamps cfg env [] (snd (resolveState cfg env (snd (resolveDetails cfg env w)))))
      else w)\<lparr>fetched := fetched w\<rparr>"
    by (simp add: createActivity_def)
  then show ?thesis by (rule exI)
next
  case True
  obtain fd w1 where r1: "resolveDetails cfg env w = (fd, w1)" by force
  obtain fs w2 where r2: "resolveState cfg env w1 = (fs, w2)" by force
  obtain a1 w3 where r3: "set_timestamps cfg env (base_activity cfg fd fs) w2 = (a1, w3)" by force
  let ?a2 = "set_buttons cfg (set_urls cfg a1)"
  obtain w4 r4 where r4: "set_imageBig cfg env ?a2 w3 = (w4, r4)" by force
  from set_imageBig_world[of cfg env ?a2 w3] r4 obtain f4 where w4: "w4 = w3\<lparr>fetched := f4\<rparr>"
    by auto
  have w3: "w3 = snd (set_timestamps cfg env [] (snd (resolveState cfg env (snd (resolveDetails cfg env w)))))"
    using r1 r2 r3 set_timestamps_world[of cfg env "base_activity cfg fd fs" w2] by simp
  show ?thesis
  proof (cases r4)
    case (Inl e)
    then have "fst (createActivity cfg env w) = w4"
      using True r1 r2 r3 r4 by (simp add: createActivity_def)
    then show ?thesis using True w4 w3 by auto
  next
    case (Inr a3)
    obtain w5 r5 where r5: "set_imageSmall cfg env a3 w4 = (w5, r5)" by force
    from set_imageSmall_world[of cfg env a3 w4] r5 obtain f5 where "w5 = w4\<lparr>fetched := f5\<rparr>"
      by auto
    then have w5: "w5 = w3\<lparr>fetched := f5\<rparr>" using w4 by simp
    have "fst (createActivity cfg env w) = w5"
      using True r1 r2 r3 r4 r5 Inr by (simp add: createActivity_def split: sum.splits)
    then show ?thesis using True w5 w3 by auto
  qed
qed

lemma createActivity_fields [simp]:
  "dispatched (fst (createActivity cfg env w)) = dispatched w"
  "intervals (fst (createActivity cfg env w)) = intervals w"
  "nextIntervalId (fst (createActivity cfg env w)) = nextIntervalId w"
  "detailsIntervalId (fst (createActivity cfg env w)) = detailsIntervalId w"
  "stateIntervalId (fst (createActivity cfg env w)) = stateIntervalId w"
  using createActivity_world[of cfg env w] by (auto split: if_splits)

lemma createActivity_lanes:
  "detailsCurrentIndex (fst (createActivity cfg env w)) =
     (if truthy_str (appName cfg) then detailsCurrentIndex (snd (resolveDetails cfg env w))
      else detailsCurrentIndex w)"
  "lastDetailsLines (fst (createActivity cfg env w)) =
     (if truthy_str (appName cfg) then lastDetailsLines (snd (resolveDetails cfg env w))
      else lastDetailsLines w)"
  "stateCurrentIndex (fst (createActivity cfg env w)) =
     (if truthy_str (appName cfg) then stateCurrentIndex (snd (resolveState cfg env w))
      else stateCurrentIndex w)"
  "lastStateLines (fst (createActivity cfg env w)) =
     (if truthy_str (appName cfg) then lastStateLines (snd (resolveState cfg env w))
      else lastStateLines w)"
     using createActivity_world[of cfg env w]
     apply (auto split: if_splits)
     apply (simp_all add: resolveState_def Let_def)
  done

lemma createActivity_anchor:
  "nowModeStartTime (fst (createActivity cfg env w)) =
     (if truthy_str (appName cfg) then nowModeStartTime (snd (set_timestamps cfg env [] w))
      else nowModeStartTime w)"
  using createActivity_world[of cfg env w]
  by (auto split: if_splits simp: set_timestamps_def Let_def split: option.splits TimestampMode.splits)

subsection \<open>The properties of the built record\<close>

lemma map_of_prune:
  "distinct (map fst a) \<Longrightarrow>
   map_of (prune a) k =
     (case map_of a k of
        None \<Rightarrow> None
      | Some v \<Rightarrow> if k = ''type'' \<or> \<not> (falsy v \<or> length_is_zero v) then Some v else None)"
proof (induction a)
  case Nil
  then show ?case by (simp add: prune_def)
next
  case (Cons p a)
  obtain k' v' where p: "p = (k', v')" by (cases p)
  from Cons.prems p have fresh: "k' \<notin> fst ` set a" and d: "distinct (map fst a)" by auto
  have "k' \<notin> fst ` set (prune a)" using fresh by (auto simp: prune_def)
  then have none: "map_of (prune a) k' = None" by (simp add: map_of_eq_None_iff)
  have step: "prune (p # a) =
        (if k' = ''type'' \<or> \<not> (falsy v' \<or> length_is_zero v') then p # prune a else prune a)"
    using p by (simp add: prune_def)
  show ?case
  proof (cases "k = k'")
    case True
    then show ?thesis using step none p by simp
  next
    case False
    then show ?thesis using step p Cons.IH[OF d] by simp
  qed
qed

lemma distinct_base_activity: "distinct (map fst (base_activity cfg fd fs))"
  by (simp add: base_activity_def Let_def distinct_update)

lemma distinct_set_timestamps:
  "distinct (map fst a) \<Longrightarrow> distinct (map fst (fst (set_timestamps cfg env a w)))"
  by (simp add: set_timestamps_def Let_def distinct_update split: option.splits TimestampMode.splits)

lemma distinct_set_urls: "distinct (map fst a) \<Longrightarrow> distinct (map fst (set_urls cfg a))"
  by (simp add: set_urls_def Let_def distinct_update)

lemma distinct_set_buttons: "distinct (map fst a) \<Longrightarrow> distinct (map fst (set_buttons cfg a))"
  by (simp add: set_buttons_def distinct_update)

lemma distinct_set_party: "distinct (map fst a) \<Longrightarrow> distinct (map fst (set_party cfg a))"
  by (simp add: set_party_def distinct_update)

lemma map_of_set_party: "k \<noteq> ''party'' \<Longrightarrow> map_of (set_party cfg a) k = map_of a k"
  by (simp add: set_party_def update_conv')

lemma set_imageBig_result:
  "set_imageBig cfg env a w = (w1, Inr a') \<Longrightarrow>
     (distinct (map fst a) \<longrightarrow> distinct (map fst a'))
     \<and> (\<forall>k. k \<noteq> ''assets'' \<longrightarrow> map_of a' k = map_of a k)"
  by (auto simp: set_imageBig_def distinct_update update_conv' split: if_splits prod.splits sum.splits)

lemma set_imageSmall_result:
  "set_imageSmall cfg env a w = (w1, Inr a') \<Longrightarrow>
     (distinct (map fst a) \<longrightarrow> distinct (map fst a'))
     \<and> (\<forall>k. k \<noteq> ''assets'' \<longrightarrow> map_of a' k = map_of a k)"
  by (auto simp: set_imageSmall_def distinct_update update_conv' split: if_splits prod.splits sum.splits)

lemma resolveState_fst:
  "fst (resolveState cfg env (snd (resolveDetails cfg env w))) = fst (resolveState cfg env w)"
  by (simp add: resolveState_def Let_def)

lemma set_timestamps_fst:
  "nowModeStartTime w' = nowModeStartTime w \<Longrightarrow>
   fst (set_timestamps cfg env a w') = fst (set_timestamps cfg env a w)"
  by (simp add: set_timestamps_def Let_def split: option.splits TimestampMode.splits)

lemma createActivity_built:
  assumes "createActivity cfg env w = (w', Inr (Some r))"
  shows "\<exists>a. r = prune a \<and> distinct (map fst a)
           \<and> (\<forall>k. k \<noteq> ''assets'' \<and> k \<noteq> ''party'' \<longrightarrow>
                 map_of a k =
                 map_of (set_buttons cfg (set_urls cfg
                   (fst (set_timestamps cfg env
                          (base_activity cfg (fst (resolveDetails cfg env w))
                                             (fst (resolveState cfg env w))) w)))) k)"
proof -
  have name: "truthy_str (appName cfg)"
    using assms by (auto simp: createActivity_def split: if_splits)
  obtain fd w1 where r1: "resolveDetails cfg env w = (fd, w1)" by force
  obtain fs w2 where r2: "resolveState cfg env w1 = (fs, w2)" by force
  obtain a1 w3 where r3: "set_timestamps cfg env (base_activity cfg fd fs) w2 = (a1, w3)" by force
  define a2 where "a2 = set_buttons cfg (set_urls cfg a1)"
  obtain w4 r4 where r4: "set_imageBig cfg env a2 w3 = (w4, r4)" by force
  from assms name r1 r2 r3 r4 obtain a3 where a3: "r4 = Inr a3"
    by (cases r4) (auto simp: createActivity_def a2_def)
  obtain w5 r5 where r5: "set_imageSmall cfg env a3 w4 = (w5, r5)" by force
  from assms name r1 r2 r3 r4 a3 r5 obtain a4 where a4: "r5 = Inr a4"
    by (cases r5) (auto simp: createActivity_def a2_def)
  have r: "r = prune (set_party cfg a4)"
    using assms name r1 r2 r3 r4 a3 r5 a4 by (simp add: createActivity_def a2_def)
  have fs: "fs = fst (resolveState cfg env w)"
    using r1 r2 resolveState_fst[of cfg env w] by simp
  have "nowModeStartTime w2 = nowModeStartTime w"
    using r1 r2 resolveState_fields(5)[of cfg env w1] resolveDetails_fields(5)[of cfg env w]
    by simp
  then have a1: "a1 = fst (set_timestamps cfg env (base_activity cfg fd fs) w)"
    using r3 set_timestamps_fst[of w2 w cfg env "base_activity cfg fd fs"] by simp
  have d1: "distinct (map fst a1)"
    unfolding a1 by (rule distinct_set_timestamps) (rule distinct_base_activity)
  have d2: "distinct (map fst a2)"
    unfolding a2_def by (intro distinct_set_buttons distinct_set_urls d1)
  from set_imageBig_result[OF r4[unfolded a3]] d2
  have d3: "distinct (map fst a3)" and m3: "\<And>k. k \<noteq> ''assets'' \<Longrightarrow> map_of a3 k = map_of a2 k"
    by auto
  from set_imageSmall_result[OF r5[unfolded a4]] d3
  have d4: "distinct (map fst a4)" and m4: "\<And>k. k \<noteq> ''assets'' \<Longrightarrow> map_of a4 k = map_of a3 k"
    by auto
  have "distinct (map fst (set_party cfg a4))" by (rule distinct_set_party[OF d4])
  moreover have "\<forall>k. k \<noteq> ''assets'' \<and> k \<noteq> ''party'' \<longrightarrow>
      map_of (set_party cfg a4) k = map_of a2 k"
    using m3 m4 by (simp add: map_of_set_party)
  ultimately show ?thesis
    using r a1 fs r1 unfolding a2_def by auto
qed

lemma createActivity_lookup:
  assumes "createActivity cfg env w = (w', Inr (Some r))" and "k \<noteq> ''assets''" and "k \<noteq> ''party''"
  shows "map_of r k =
     (case map_of (set_buttons cfg (set_urls cfg
                   (fst (set_timestamps cfg env
                          (base_activity cfg (fst (resolveDetails cfg env w))
                                             (fst (resolveState cfg env w))) w)))) k of
        None \<Rightarrow> None
      | Some v \<Rightarrow> if k = ''type'' \<or> \<not> (falsy v \<or> length_is_zero v) then Some v else None)"
proof -
  from createActivity_built[OF assms(1)] obtain a where
    "r = prune a" "distinct (map fst a)"
    "map_of a k = map_of (set_buttons cfg (set_urls cfg
                   (fst (set_timestamps cfg env
                          (base_activity cfg (fst (resolveDetails cfg env w))
                                             (fst (resolveState cfg env w))) w)))) k"
    using assms(2,3) by blast
  then show ?thesis by (simp add: map_of_prune)
qed

lemma map_of_set_buttons:
  "map_of (set_buttons cfg a) k =
     (if truthy_str (buttonOneText cfg) \<and> k = ''metadata''
      then Some (JObj [(''button_urls'', JArr (filter_isTruthy [buttonOneURL cfg, buttonTwoURL cfg]))])
      else if truthy_str (buttonOneText cfg) \<and> k = ''buttons''
      then Some (JArr (filter_isTruthy [buttonOneText cfg, buttonTwoText cfg]))
      else map_of a k)"
  by (simp add: set_buttons_def update_conv')

lemma map_of_set_urls:
  "k \<noteq> ''details_url'' \<Longrightarrow> k \<noteq> ''state_url'' \<Longrightarrow> map_of (set_urls cfg a) k = map_of a k"
  by (simp add: set_urls_def Let_def update_conv')

lemma map_of_set_timestamps:
  "k \<noteq> ''timestamps'' \<Longrightarrow> map_of (fst (set_timestamps cfg env a w)) k = map_of a k"
  by (simp add: set_timestamps_def Let_def update_conv' split: option.splits TimestampMode.splits)

lemma map_of_base_activity:
  "map_of (base_activity cfg fd fs) ''application_id'' =
     Some (if truthy_str (appID cfg) then str_val (appID cfg) else JStr ''0'')"
  "map_of (base_activity cfg fd fs) ''type'' =
     Some (JNum (case type cfg of None \<Rightarrow> ActivityType_PLAYING | Some t \<Rightarrow> t))"
  "map_of (base_activity cfg fd fs) ''details'' = Some (str_val fd)"
  "map_of (base_activity cfg fd fs) ''state'' = Some (str_val fs)"
  by (simp_all add: base_activity_def Let_def update_conv')

lemma createActivity_outcome:
  assumes "truthy_str (appName cfg)"
  shows "(\<exists>r. snd (createActivity cfg env w) = Inr (Some r))
         \<or> (\<exists>e key. snd (createActivity cfg env w) = Inl e \<and> fetchAssetIds env (appID cfg) [key] = Inl e)"
  using assms
  by (auto simp: createActivity_def Let_def set_imageBig_def set_imageSmall_def
        getApplicationAsset_def split: prod.splits sum.splits if_splits)

lemmas eval_defs =
  createActivity_def no_settings_def truthy_str_def truthy_num_def
  resolveDetails_def resolveState_def rotation_on_def set_timestamps_def set_urls_def
  set_buttons_def set_imageBig_def set_imageSmall_def set_party_def Let_def
  base_activity_def ActivityType_PLAYING_def ActivityType_STREAMING_def prune_def str_val_def
  filter_isTruthy_def isTruthy_def initial_world_def sample_env_def

lemma resolveDetails_changed:
  assumes "rotation_on (detailsRandomMode cfg) (detailsRandomLines cfg)"
    and "parse_lines (the (detailsRandomLines cfg)) \<noteq> []"
    and "parse_lines (the (detailsRandomLines cfg)) \<noteq> lastDetailsLines w"
  shows "detailsCurrentIndex (snd (resolveDetails cfg env w)) = 0"
    and "lastDetailsLines (snd (resolveDetails cfg env w)) = parse_lines (the (detailsRandomLines cfg))"
    and "detailsRandomMode cfg \<noteq> Some Yes \<Longrightarrow>
         fst (resolveDetails cfg env w) = Some (parse_lines (the (detailsRandomLines cfg)) ! 0)"
  using assms
  by (auto simp: resolveDetails_def Let_def lines_changed_iff js_index_def)

lemma resolveState_changed:
  assumes "rotation_on (stateRandomMode cfg) (stateRandomLines cfg)"
    and "parse_lines (the (stateRandomLines cfg)) \<noteq> []"
    and "parse_lines (the (stateRandomLines cfg)) \<noteq> lastStateLines w"
  shows "stateCurrentIndex (snd (resolveState cfg env w)) = 0"
    and "lastStateLines (snd (resolveState cfg env w)) = parse_lines (the (stateRandomLines cfg))"
    and "stateRandomMode cfg \<noteq> Some Yes \<Longrightarrow>
         fst (resolveState cfg env w) = Some (parse_lines (the (stateRandomLines cfg)) ! 0)"
  using assms
  by (auto simp: resolveState_def Let_def lines_changed_iff js_index_def)

lemma first_line_kept:
  assumes "ls \<noteq> []" and "ls = parse_lines src"
  shows "\<not> falsy (str_val (Some (ls ! 0)))" and "\<not> length_is_zero (str_val (Some (ls ! 0)))"
proof -
  have "ls ! 0 \<in> set ls" using assms(1) by (cases ls) auto
  then have "ls ! 0 \<noteq> []" using assms(2) parse_lines_nonblank by blast
  then show "\<not> falsy (str_val (Some (ls ! 0)))" "\<not> length_is_zero (str_val (Some (ls ! 0)))"
    by (simp_all add: str_val_def)
qed

subsection \<open>The publish cycle and the timers\<close>

lemma setRpc_world:
  "\<exists>ds. fst (setRpc cfg env disable w) =
     (fst (createActivity cfg env
            (if disable then clearRotationIntervals w else setupRotationIntervals cfg w)))
       \<lparr>dispatched := ds\<rparr>"
proof -
  let ?w1 = "if disable then clearRotationIntervals w else setupRotationIntervals cfg w"
  obtain w2 res where c: "createActivity cfg env ?w1 = (w2, res)" by force
  show ?thesis
  proof (cases res)
    case (Inl e)
    then have "fst (setRpc cfg env disable w) = w2\<lparr>dispatched := dispatched w2\<rparr>"
      using c by (auto simp: setRpc_def Let_def)
    then show ?thesis using c by (metis fst_conv)
  next
    case (Inr a)
    then have "fst (setRpc cfg env disable w) =
        w2\<lparr>dispatched := dispatched w2 @
          [\<lparr>ev_type = ''LOCAL_ACTIVITY_UPDATE'',
            ev_activity = (if \<not> disable then (case a of None \<Rightarrow> JUndefined | Some a \<Rightarrow> JObj a) else JNull),
            ev_socketId = ''CustomRPC''\<rparr>]\<rparr>"
      using c by (auto simp: setRpc_def Let_def dispatch_def)
    then show ?thesis using c by (metis fst_conv)
  qed
qed

lemma setRpc_fields:
  "nowModeStartTime (fst (setRpc cfg env disable w)) =
     nowModeStartTime (fst (createActivity cfg env
        (if disable then clearRotationIntervals w else setupRotationIntervals cfg w)))"
  "detailsCurrentIndex (fst (setRpc cfg env disable w)) =
     detailsCurrentIndex (fst (createActivity cfg env
        (if disable then clearRotationIntervals w else setupRotationIntervals cfg w)))"
  "stateCurrentIndex (fst (setRpc cfg env disable w)) =
     stateCurrentIndex (fst (createActivity cfg env
        (if disable then clearRotationIntervals w else setupRotationIntervals cfg w)))"
  "lastDetailsLines (fst (setRpc cfg env disable w)) =
     lastDetailsLines (fst (createActivity cfg env
        (if disable then clearRotationIntervals w else setupRotationIntervals cfg w)))"
  "lastStateLines (fst (setRpc cfg env disable w)) =
     lastStateLines (fst (createActivity cfg env
        (if disable then clearRotationIntervals w else setupRotationIntervals cfg w)))"
  "detailsIntervalId (fst (setRpc cfg env disable w)) =
     detailsIntervalId (if disable then clearRotationIntervals w else setupRotationIntervals cfg w)"
  "stateIntervalId (fst (setRpc cfg env disable w)) =
     stateIntervalId (if disable then clearRotationIntervals w else setupRotationIntervals cfg w)"
  "intervals (fst (setRpc cfg env disable w)) =
     intervals (if disable then clearRotationIntervals w else setupRotationIntervals cfg w)"
  using setRpc_world[of cfg env disable w] by auto

lemma createActivity_fulfils:
  assumes "\<forall>key. \<exists>ids. fetchAssetIds env (appID cfg) [key] = Inr ids"
  shows "\<exists>res. snd (createActivity cfg env w) = Inr res"
proof (cases "truthy_str (appName cfg)")
  case True
  from createActivity_outcome[OF True, of env w] assms show ?thesis
    by (metis Inl_Inr_False)
next
  case False
  then show ?thesis by (simp add: createActivity_def)
qed

lemma setRpc_disable_dispatched:
  assumes "\<forall>key. \<exists>ids. fetchAssetIds env (appID cfg) [key] = Inr ids"
  shows "dispatched (fst (setRpc cfg env True w)) =
           dispatched w @ [\<lparr>ev_type = ''LOCAL_ACTIVITY_UPDATE'', ev_activity = JNull,
                            ev_socketId = ''CustomRPC''\<rparr>]"
proof -
  obtain w2 res where c: "createActivity cfg env (clearRotationIntervals w) = (w2, res)" by force
  from createActivity_fulfils[OF assms, of "clearRotationIntervals w"] c
  obtain a where res: "res = Inr a" by auto
  have "dispatched w2 = dispatched w"
    using c createActivity_fields(1)[of cfg env "clearRotationIntervals w"] by simp
  then show ?thesis using c res by (simp add: setRpc_def dispatch_def)
qed

lemma stop_fields:
  "detailsIntervalId (stop cfg env w) = None"
  "stateIntervalId (stop cfg env w) = None"
  by (simp_all add: stop_def Let_def setRpc_fields)

lemma stop_dispatched:
  assumes "\<forall>key. \<exists>ids. fetchAssetIds env (appID cfg) [key] = Inr ids"
  shows "dispatched (stop cfg env w) =
           dispatched w @ [\<lparr>ev_type = ''LOCAL_ACTIVITY_UPDATE'', ev_activity = JNull,
                            ev_socketId = ''CustomRPC''\<rparr>]"
  using setRpc_disable_dispatched[OF assms] by (simp add: stop_def Let_def)

lemma stop_null_events:
  assumes "\<forall>key. \<exists>ids. fetchAssetIds env (appID cfg) [key] = Inr ids"
  shows "null_events (stop cfg env w) = null_events w + 1"
  using stop_dispatched[OF assms, of w] by (simp add: null_events_def)

lemma sample_env_answers: "\<forall>key. \<exists>ids. fetchAssetIds sample_env app [key] = Inr ids"
  by (simp add: sample_env_def)

lemma setupDetails_armed:
  assumes "arm_guard (detailsRandomMode cfg) (detailsRandomLines cfg) (detailsRandomInterval cfg)"
    and "1 < length (parse_lines (the (detailsRandomLines cfg)))"
  shows "detailsIntervalId (setupDetails cfg w) = Some (nextIntervalId w)"
    and "map_of (intervals (setupDetails cfg w)) (nextIntervalId w) =
           Some \<lparr>t_lane = DetailsLane, t_mode = the (detailsRandomMode cfg),
                 t_lines = parse_lines (the (detailsRandomLines cfg)),
                 t_delay = the (detailsRandomInterval cfg) * 1000\<rparr>"
    and "lastDetailsLines (setupDetails cfg w) = parse_lines (the (detailsRandomLines cfg))"
    and "nextIntervalId (setupDetails cfg w) = Suc (nextIntervalId w)"
  using assms by (simp_all add: setupDetails_def setInterval_def Let_def)

lemma setupState_armed:
  assumes "arm_guard (stateRandomMode cfg) (stateRandomLines cfg) (stateRandomInterval cfg)"
    and "1 < length (parse_lines (the (stateRandomLines cfg)))"
  shows "stateIntervalId (setupState cfg w) = Some (nextIntervalId w)"
    and "map_of (intervals (setupState cfg w)) (nextIntervalId w) =
           Some \<lparr>t_lane = StateLane, t_mode = the (stateRandomMode cfg),
                 t_lines = parse_lines (the (stateRandomLines cfg)),
                 t_delay = the (stateRandomInterval cfg) * 1000\<rparr>"
    and "lastStateLines (setupState cfg w) = parse_lines (the (stateRandomLines cfg))"
  using assms by (simp_all add: setupState_def setInterval_def Let_def)

lemma setupState_other_timers:
  "h \<noteq> nextIntervalId w \<Longrightarrow> map_of (intervals (setupState cfg w)) h = map_of (intervals w) h"
  by (simp add: setupState_def setInterval_def Let_def)

lemma setup_details_armed:
  assumes "arm_guard (detailsRandomMode cfg) (detailsRandomLines cfg) (detailsRandomInterval cfg)"
    and "1 < length (parse_lines (the (detailsRandomLines cfg)))"
  shows "detailsIntervalId (setupRotationIntervals cfg w) = Some (nextIntervalId w)"
    and "map_of (intervals (setupRotationIntervals cfg w)) (nextIntervalId w) =
           Some \<lparr>t_lane = DetailsLane, t_mode = the (detailsRandomMode cfg),
                 t_lines = parse_lines (the (detailsRandomLines cfg)),
                 t_delay = the (detailsRandomInterval cfg) * 1000\<rparr>"
    and "lastDetailsLines (setupRotationIntervals cfg w) = parse_lines (the (detailsRandomLines cfg))"
proof -
  let ?wc = "clearRotationIntervals w"
  have n: "nextIntervalId ?wc = nextIntervalId w" by simp
  show "detailsIntervalId (setupRotationIntervals cfg w) = Some (nextIntervalId w)"
    using setupDetails_armed(1)[OF assms, of ?wc] by (simp add: setupRotationIntervals_def)
  have "nextIntervalId w \<noteq> nextIntervalId (setupDetails cfg ?wc)"
    using setupDetails_armed(4)[OF assms, of ?wc] by simp
  from setupState_other_timers[OF this, of cfg]
  show "map_of (intervals (setupRotationIntervals cfg w)) (nextIntervalId w) =
           Some \<lparr>t_lane = DetailsLane, t_mode = the (detailsRandomMode cfg),
                 t_lines = parse_lines (the (detailsRandomLines cfg)),
                 t_delay = the (detailsRandomInterval cfg) * 1000\<rparr>"
    using setupDetails_armed(2)[OF assms, of ?wc] by (simp add: setupRotationIntervals_def)
  show "lastDetailsLines (setupRotationIntervals cfg w) = parse_lines (the (detailsRandomLines cfg))"
    using setupDetails_armed(3)[OF assms, of ?wc] by (simp add: setupRotationIntervals_def)
qed

lemma setup_state_armed:
  assumes "arm_guard (stateRandomMode cfg) (stateRandomLines cfg) (stateRandomInterval cfg)"
    and "1 < length (parse_lines (the (stateRandomLines cfg)))"
  shows "\<exists>h. stateIntervalId (setupRotationIntervals cfg w) = Some h
           \<and> map_of (intervals (setupRotationIntervals cfg w)) h =
               Some \<lparr>t_lane = StateLane, t_mode = the (stateRandomMode cfg),
                     t_lines = parse_lines (the (stateRandomLines cfg)),
                     t_delay = the (stateRandomInterval cfg) * 1000\<rparr>"
    and "lastStateLines (setupRotationIntervals cfg w) = parse_lines (the (stateRandomLines cfg))"
  using setupState_armed[OF assms] by (simp_all add: setupRotationIntervals_def)

lemma arm_guard_rotation_on: "arm_guard mode src interval \<Longrightarrow> rotation_on mode src"
  by (simp add: arm_guard_def rotation_on_def)

lemma resolveDetails_recorded:
  "lastDetailsLines w = parse_lines (the (detailsRandomLines cfg)) \<Longrightarrow>
   rotation_on (detailsRandomMode cfg) (detailsRandomLines cfg) \<Longrightarrow>
   snd (resolveDetails cfg env w) = w"
  by (simp add: resolveDetails_def Let_def lines_changed_iff)

lemma resolveState_recorded:
  "lastStateLines w = parse_lines (the (stateRandomLines cfg)) \<Longrightarrow>
   rotation_on (stateRandomMode cfg) (stateRandomLines cfg) \<Longrightarrow>
   snd (resolveState cfg env w) = w"
  by (simp add: resolveState_def Let_def lines_changed_iff)

lemma setRpc_details_armed:
  assumes "arm_guard (detailsRandomMode cfg) (detailsRandomLines cfg) (detailsRandomInterval cfg)"
    and "1 < length (parse_lines (the (detailsRandomLines cfg)))"
  shows "lastDetailsLines (fst (setRpc cfg env False w)) = parse_lines (the (detailsRandomLines cfg))"
    and "detailsCurrentIndex (fst (setRpc cfg env False w)) = detailsCurrentIndex w"
    and "\<exists>h. detailsIntervalId (fst (setRpc cfg env False w)) = Some h
           \<and> map_of (intervals (fst (setRpc cfg env False w))) h =
               Some \<lparr>t_lane = DetailsLane, t_mode = the (detailsRandomMode cfg),
                     t_lines = parse_lines (the (detailsRandomLines cfg)),
                     t_delay = the (detailsRandomInterval cfg) * 1000\<rparr>"
proof -
  let ?w1 = "setupRotationIntervals cfg w"
  have same: "snd (resolveDetails cfg env ?w1) = ?w1"
    using resolveDetails_recorded[OF setup_details_armed(3)[OF assms] arm_guard_rotation_on[OF assms(1)]] .
  show "lastDetailsLines (fst (setRpc cfg env False w)) = parse_lines (the (detailsRandomLines cfg))"
    using same setup_details_armed(3)[OF assms, of w]
    by (simp add: setRpc_fields createActivity_lanes)
  show "detailsCurrentIndex (fst (setRpc cfg env False w)) = detailsCurrentIndex w"
    using same by (simp add: setRpc_fields createActivity_lanes)
  show "\<exists>h. detailsIntervalId (fst (setRpc cfg env False w)) = Some h
           \<and> map_of (intervals (fst (setRpc cfg env False w))) h =
               Some \<lparr>t_lane = DetailsLane, t_mode = the (detailsRandomMode cfg),
                     t_lines = parse_lines (the (detailsRandomLines cfg)),
                     t_delay = the (detailsRandomInterval cfg) * 1000\<rparr>"
    using setup_details_armed(1,2)[OF assms, of w] by (simp add: setRpc_fields)
qed

lemma setRpc_state_armed:
  assumes "arm_guard (stateRandomMode cfg) (stateRandomLines cfg) (stateRandomInterval cfg)"
    and "1 < length (parse_lines (the (stateRandomLines cfg)))"
  shows "lastStateLines (fst (setRpc cfg env False w)) = parse_lines (the (stateRandomLines cfg))"
    and "stateCurrentIndex (fst (setRpc cfg env False w)) = stateCurrentIndex w"
    and "\<exists>h. stateIntervalId (fst (setRpc cfg env False w)) = Some h
           \<and> map_of (intervals (fst (setRpc cfg env False w))) h =
               Some \<lparr>t_lane = StateLane, t_mode = the (stateRandomMode cfg),
                     t_lines = parse_lines (the (stateRandomLines cfg)),
                     t_delay = the (stateRandomInterval cfg) * 1000\<rparr>"
proof -
  let ?w1 = "setupRotationIntervals cfg w"
  have same: "snd (resolveState cfg env ?w1) = ?w1"
    using resolveState_recorded[OF setup_state_armed(2)[OF assms] arm_guard_rotation_on[OF assms(1)]] .
  show "lastStateLines (fst (setRpc cfg env False w)) = parse_lines (the (stateRandomLines cfg))"
    using same setup_state_armed(2)[OF assms, of w]
    by (simp add: setRpc_fields createActivity_lanes)
  show "stateCurrentIndex (fst (setRpc cfg env False w)) = stateCurrentIndex w"
    using same by (simp add: setRpc_fields createActivity_lanes)
  show "\<exists>h. stateIntervalId (fst (setRpc cfg env False w)) = Some h
           \<and> map_of (intervals (fst (setRpc cfg env False w))) h =
               Some \<lparr>t_lane = StateLane, t_mode = the (stateRandomMode cfg),
                     t_lines = parse_lines (the (stateRandomLines cfg)),
                     t_delay = the (stateRandomInterval cfg) * 1000\<rparr>"
    using setup_state_armed(1)[OF assms, of w] by (simp add: setRpc_fields)
qed

lemma createActivity_anchor_kept:
  "timestampMode cfg \<noteq> Some NOW \<Longrightarrow>
   nowModeStartTime (fst (createActivity cfg env w)) = nowModeStartTime w"
  by (simp add: createActivity_anchor set_timestamps_def split: option.splits TimestampMode.splits)

lemma setRpc_anchor_kept:
  "timestampMode cfg \<noteq> Some NOW \<Longrightarrow>
   nowModeStartTime (fst (setRpc cfg env disable w)) = nowModeStartTime w"
  by (simp add: setRpc_fields createActivity_anchor_kept)

lemma start_anchor_kept:
  "timestampMode cfg \<noteq> Some NOW \<Longrightarrow> nowModeStartTime (start cfg env w) = nowModeStartTime w"
  by (simp add: start_def Let_def setRpc_anchor_kept)

lemma callback_anchor_kept:
  "timestampMode cfg \<noteq> Some NOW \<Longrightarrow> nowModeStartTime (callback cfg env t w) = nowModeStartTime w"
  by (simp add: callback_def Let_def setRpc_anchor_kept split: lane.splits)

lemma stop_anchor_cleared:
  "timestampMode cfg \<noteq> Some NOW \<Longrightarrow> nowModeStartTime (stop cfg env w) = None"
  by (simp add: stop_def Let_def setRpc_anchor_kept)

lemma start_details_index:
  assumes "arm_guard (detailsRandomMode cfg) (detailsRandomLines cfg) (detailsRandomInterval cfg)"
    and "1 < length (parse_lines (the (detailsRandomLines cfg)))"
  shows "detailsCurrentIndex (start cfg env w) = detailsCurrentIndex w"
  using setRpc_details_armed(2)[OF assms] by (simp add: start_def Let_def)

lemma stop_details_index:
  assumes "rotation_on (detailsRandomMode cfg) (detailsRandomLines cfg)"
    and "lastDetailsLines w = parse_lines (the (detailsRandomLines cfg))"
  shows "detailsCurrentIndex (stop cfg env w) = detailsCurrentIndex w"
proof -
  let ?w = "clearRotationIntervals ((clearRotationIntervals w)\<lparr>nowModeStartTime := None\<rparr>)"
  have "lastDetailsLines ?w = parse_lines (the (detailsRandomLines cfg))"
    using assms(2) by simp
  from resolveDetails_recorded[OF this assms(1), of env]
  show ?thesis by (simp add: stop_def Let_def setRpc_fields createActivity_lanes)
qed

subsection \<open>Runs of the sample settings\<close>

lemmas sched_defs =
  setRpc_def start_def stop_def setupRotationIntervals_def setupDetails_def setupState_def
  clearRotationIntervals_def clearInterval_def setInterval_def arm_guard_def dispatch_def
  callback_def fire_def null_events_def

lemma start_rotating:
  "start rotating_settings sample_env initial_world =
     \<lparr>detailsCurrentIndex = 0, stateCurrentIndex = 0,
      detailsIntervalId = Some 3, stateIntervalId = Some 4,
      lastDetailsLines = [''a'', ''b'', ''c''], lastStateLines = [''x'', ''y''],
      nowModeStartTime = Some 5000,
      intervals =
        [(4, \<lparr>t_lane = StateLane, t_mode = No, t_lines = [''x'', ''y''], t_delay = 2000\<rparr>),
         (3, \<lparr>t_lane = DetailsLane, t_mode = No, t_lines = [''a'', ''b'', ''c''], t_delay = 1000\<rparr>)],
      nextIntervalId = 5,
      dispatched =
        [\<lparr>ev_type = ''LOCAL_ACTIVITY_UPDATE'',
          ev_activity =
            JObj [(''application_id'', JStr ''0''), (''name'', JStr ''App''), (''state'', JStr ''x''),
                  (''details'', JStr ''a''), (''type'', JNum 0), (''flags'', JNum 1),
                  (''timestamps'', JObj [(''start'', JNum 5000)])],
          ev_socketId = ''CustomRPC''\<rparr>],
      fetched = []\<rparr>"
  by (simp add: rotating_settings_def sched_defs eval_defs parse_abc parse_xy lines_changed_iff
        js_index_def)

lemma tick_details_rotating:
  "fire rotating_settings sample_env 3 (start rotating_settings sample_env initial_world) =
   Some
     \<lparr>detailsCurrentIndex = 1, stateCurrentIndex = 0,
      detailsIntervalId = Some 5, stateIntervalId = Some 6,
      lastDetailsLines = [''a'', ''b'', ''c''], lastStateLines = [''x'', ''y''],
      nowModeStartTime = Some 5000,
      intervals =
        [(6, \<lparr>t_lane = StateLane, t_mode = No, t_lines = [''x'', ''y''], t_delay = 2000\<rparr>),
         (5, \<lparr>t_lane = DetailsLane, t_mode = No, t_lines = [''a'', ''b'', ''c''], t_delay = 1000\<rparr>)],
      nextIntervalId = 7,
      dispatched =
        [\<lparr>ev_type = ''LOCAL_ACTIVITY_UPDATE'',
          ev_activity =
            JObj [(''application_id'', JStr ''0''), (''name'', JStr ''App''), (''state'', JStr ''x''),
                  (''details'', JStr ''a''), (''type'', JNum 0), (''flags'', JNum 1),
                  (''timestamps'', JObj [(''start'', JNum 5000)])],
          ev_socketId = ''CustomRPC''\<rparr>,
         \<lparr>ev_type = ''LOCAL_ACTIVITY_UPDATE'',
          ev_activity =
            JObj [(''application_id'', JStr ''0''), (''name'', JStr ''App''), (''state'', JStr ''x''),
                  (''details'', JStr ''b''), (''type'', JNum 0), (''flags'', JNum 1),
                  (''timestamps'', JObj [(''start'', JNum 5000)])],
          ev_socketId = ''CustomRPC''\<rparr>],
      fetched = []\<rparr>"
  unfolding start_rotating
  by (simp add: rotating_settings_def sched_defs eval_defs parse_abc parse_xy lines_changed_iff
        js_index_def)

lemma start_now_anchor:
  "nowModeStartTime (start now_settings sample_env initial_world) = Some 5000"
  by (simp add: start_def Let_def setRpc_fields createActivity_anchor now_settings_def
        no_settings_def sample_env_def truthy_str_def truthy_num_def set_timestamps_def)

lemma start_play_null_events: "null_events (start play_settings sample_env initial_world) = 0"
proof -
  have "dispatched (start play_settings sample_env initial_world) =
        [\<lparr>ev_type = ''LOCAL_ACTIVITY_UPDATE'',
          ev_activity =
            JObj [(''application_id'', JStr ''0''), (''name'', JStr ''App''), (''type'', JNum 0),
                  (''flags'', JNum 1), (''buttons'', JArr [JStr ''Play'']),
                  (''metadata'', JObj [(''button_urls'', JArr [JStr ''http://x''])])],
          ev_socketId = ''CustomRPC''\<rparr>]"
    by (simp add: play_settings_def sched_defs eval_defs)
  then show ?thesis by (simp add: null_events_def)
qed

lemma rotating_armable:
  "arm_guard (detailsRandomMode rotating_settings) (detailsRandomLines rotating_settings)
     (detailsRandomInterval rotating_settings)"
  "parse_lines (the (detailsRandomLines rotating_settings)) = [''a'', ''b'', ''c'']"
  "arm_guard (stateRandomMode rotating_settings) (stateRandomLines rotating_settings)
     (stateRandomInterval rotating_settings)"
  "parse_lines (the (stateRandomLines rotating_settings)) = [''x'', ''y'']"
  by (simp_all add: rotating_settings_def no_settings_def arm_guard_def truthy_str_def
        truthy_num_def parse_abc parse_xy)

subsection \<open>No application name, no activity\<close>

text \<open>
  Claim C7. When \<open>appName\<close> is missing or empty, \<^verbatim>\<open>createActivity\<close> returns undefined
  at once: the world is as before, so the asset service has not been called (the log
  \<open>fetched\<close> is unchanged, whatever the environment), and nothing of the record has been
  computed.
\<close>

theorem createActivity_without_appName:
  "\<not> truthy_str (appName cfg) \<Longrightarrow>
     createActivity cfg env w = (w, Inr None)
     \<and> fetched (fst (createActivity cfg env w)) = fetched w"
  by (simp add: createActivity_def)

theorem createActivity_without_appName_witness:
  "\<not> truthy_str (appName (no_settings\<lparr>appName := Some [], imageBig := Some ''logo''\<rparr>))
   \<and> createActivity (no_settings\<lparr>appName := Some [], imageBig := Some ''logo''\<rparr>)
         sample_env initial_world = (initial_world, Inr None)
   \<and> fetched (fst (createActivity (no_settings\<lparr>appName := Some [], imageBig := Some ''logo''\<rparr>)
         sample_env initial_world)) = fetched initial_world"
  using createActivity_without_appName
          [of "no_settings\<lparr>appName := Some [], imageBig := Some ''logo''\<rparr>"
              sample_env initial_world]
  by (simp add: no_settings_def truthy_str_def)

subsection \<open>The default application id\<close>

text \<open>
  Claim C10. With \<open>appName\<close> present and \<open>appID\<close> missing or empty, \<^verbatim>\<open>createActivity\<close>
  either rejects with the rejection of the asset service, or returns a record whose
  \<^verbatim>\<open>application_id\<close> is the string "0": the default is still there after the pruning
  loop.
\<close>

theorem application_id_default:
  assumes "truthy_str (appName cfg)" and "\<not> truthy_str (appID cfg)"
  shows "(case snd (createActivity cfg env w) of
            Inl e \<Rightarrow> \<exists>key. fetchAssetIds env (appID cfg) [key] = Inl e
          | Inr res \<Rightarrow> \<exists>r. res = Some r \<and> map_of r ''application_id'' = Some (JStr ''0''))"
proof -
  from createActivity_outcome[OF assms(1), of env w]
  consider r where "snd (createActivity cfg env w) = Inr (Some r)"
    | e key where "snd (createActivity cfg env w) = Inl e" "fetchAssetIds env (appID cfg) [key] = Inl e"
    by blast
  then show ?thesis
  proof cases
    case 1
    then have "createActivity cfg env w = (fst (createActivity cfg env w), Inr (Some r))"
      by (metis prod.collapse)
    from createActivity_lookup[OF this, of "''application_id''"]
    have "map_of r ''application_id'' = Some (JStr ''0'')"
      using assms(2)
      by (simp add: map_of_set_buttons map_of_set_urls map_of_set_timestamps map_of_base_activity)
    with 1 show ?thesis by simp
  next
    case 2
    then show ?thesis by auto
  qed
qed

theorem application_id_default_witness:
  "truthy_str (appName play_settings) \<and> \<not> truthy_str (appID play_settings)
   \<and> (\<exists>r. snd (createActivity play_settings sample_env initial_world) = Inr (Some r)
           \<and> map_of r ''application_id'' = Some (JStr ''0''))"
proof -
  have 1: "truthy_str (appName play_settings)" and 2: "\<not> truthy_str (appID play_settings)"
    by (simp_all add: play_settings_def no_settings_def truthy_str_def)
  have 3: "\<exists>r. snd (createActivity play_settings sample_env initial_world) = Inr (Some r)"
    by (simp add: createActivity_def play_settings_def no_settings_def truthy_str_def truthy_num_def
        resolveDetails_def resolveState_def rotation_on_def set_timestamps_def set_urls_def
        set_buttons_def set_imageBig_def set_imageSmall_def set_party_def Let_def)
  from application_id_default[OF 1 2, of sample_env initial_world] 1 2 3 show ?thesis
    by auto
qed

subsection \<open>Buttons and their URLs\<close>

text \<open>
  Claim C2, as the code has it. With a first button "Play", no second button, no first URL
  and the second URL "http://x", the record has the buttons ["Play"] and the URL list
  ["http://x"]: the two lists are filtered each on its own, so the missing first URL is
  dropped and the second URL stands at position 0, the position of "Play".
\<close>

theorem buttons_filtered_independently:
  assumes "buttonOneText cfg = Some ''Play''" and "\<not> truthy_str (buttonTwoText cfg)"
    and "\<not> truthy_str (buttonOneURL cfg)" and "buttonTwoURL cfg = Some ''http://x''"
    and "createActivity cfg env w = (w', Inr (Some r))"
  shows "map_of r ''buttons'' = Some (JArr [JStr ''Play''])
         \<and> map_of r ''metadata'' = Some (JObj [(''button_urls'', JArr [JStr ''http://x''])])"
  using createActivity_lookup[OF assms(5), of "''buttons''"]
        createActivity_lookup[OF assms(5), of "''metadata''"] assms(1-4)
  by (simp add: map_of_set_buttons filter_isTruthy_def isTruthy_def truthy_str_def str_val_def)

theorem buttons_filtered_independently_witness:
  "buttonOneText play_settings = Some ''Play'' \<and> \<not> truthy_str (buttonTwoText play_settings)
   \<and> \<not> truthy_str (buttonOneURL play_settings) \<and> buttonTwoURL play_settings = Some ''http://x''
   \<and> createActivity play_settings sample_env initial_world =
       (initial_world,
        Inr (Some [(''application_id'', JStr ''0''), (''name'', JStr ''App''), (''type'', JNum 0),
                   (''flags'', JNum 1), (''buttons'', JArr [JStr ''Play'']),
                   (''metadata'', JObj [(''button_urls'', JArr [JStr ''http://x''])])]))
   \<and> map_of [(''application_id'', JStr ''0''), (''name'', JStr ''App''), (''type'', JNum 0),
              (''flags'', JNum 1), (''buttons'', JArr [JStr ''Play'']),
              (''metadata'', JObj [(''button_urls'', JArr [JStr ''http://x''])])] ''metadata''
       = Some (JObj [(''button_urls'', JArr [JStr ''http://x''])])"
proof -
  have h: "buttonOneText play_settings = Some ''Play''" "\<not> truthy_str (buttonTwoText play_settings)"
    "\<not> truthy_str (buttonOneURL play_settings)" "buttonTwoURL play_settings = Some ''http://x''"
    by (simp_all add: play_settings_def no_settings_def truthy_str_def)
  have c: "createActivity play_settings sample_env initial_world =
       (initial_world,
        Inr (Some [(''application_id'', JStr ''0''), (''name'', JStr ''App''), (''type'', JNum 0),
                   (''flags'', JNum 1), (''buttons'', JArr [JStr ''Play'']),
                   (''metadata'', JObj [(''button_urls'', JArr [JStr ''http://x''])])]))"
    by (simp add: play_settings_def eval_defs)
  from buttons_filtered_independently[OF h c] h c show ?thesis by simp
qed

text \<open>
  Claim C2 as stated fails: the claim wants no URL at the position of "Play"; the record
  built from these settings has "http://x" there.
\<close>

theorem play_button_paired_with_second_url:
  "snd (createActivity play_settings sample_env initial_world) =
     Inr (Some [(''application_id'', JStr ''0''), (''name'', JStr ''App''), (''type'', JNum 0),
                (''flags'', JNum 1), (''buttons'', JArr [JStr ''Play'']),
                (''metadata'', JObj [(''button_urls'', JArr [JStr ''http://x''])])])"
  by (simp add: createActivity_def play_settings_def no_settings_def truthy_str_def truthy_num_def
        resolveDetails_def resolveState_def rotation_on_def set_timestamps_def set_urls_def
        set_buttons_def set_imageBig_def set_imageSmall_def set_party_def Let_def
        base_activity_def ActivityType_PLAYING_def ActivityType_STREAMING_def prune_def str_val_def
        filter_isTruthy_def isTruthy_def)

subsection \<open>The pruning loop\<close>

text \<open>
  Claim C9. The pruning loop keeps exactly the properties that are \<^verbatim>\<open>type\<close> or whose
  value is neither falsy nor of length 0. In every record that \<^verbatim>\<open>createActivity\<close>
  returns, \<^verbatim>\<open>type\<close> is present with the configured value, or 0 (PLAYING) when none is
  configured; every other property is truthy and not an empty sequence; and a static
  details text "" leaves no \<^verbatim>\<open>details\<close> property.
\<close>

theorem prune_keeps_type:
  "set (prune a) =
     {(k, v). (k, v) \<in> set a \<and> (k = ''type'' \<or> \<not> (falsy v \<or> length_is_zero v))}
   \<and> (createActivity cfg env w = (w', Inr (Some r)) \<longrightarrow>
        map_of r ''type'' = Some (JNum (case type cfg of None \<Rightarrow> ActivityType_PLAYING | Some t \<Rightarrow> t))
        \<and> (\<forall>k v. (k, v) \<in> set r \<and> k \<noteq> ''type'' \<longrightarrow> \<not> falsy v \<and> \<not> length_is_zero v)
        \<and> (\<not> rotation_on (detailsRandomMode cfg) (detailsRandomLines cfg) \<and> details cfg = Some []
             \<longrightarrow> map_of r ''details'' = None))"
proof (intro conjI impI)
  show "set (prune a) =
     {(k, v). (k, v) \<in> set a \<and> (k = ''type'' \<or> \<not> (falsy v \<or> length_is_zero v))}"
    by (auto simp: prune_def)
next
  assume c: "createActivity cfg env w = (w', Inr (Some r))"
  show "map_of r ''type'' = Some (JNum (case type cfg of None \<Rightarrow> ActivityType_PLAYING | Some t \<Rightarrow> t))"
    using createActivity_lookup[OF c, of "''type''"]
    by (simp add: map_of_set_buttons map_of_set_urls map_of_set_timestamps map_of_base_activity)
  from createActivity_built[OF c] obtain a' where "r = prune a'" by blast
  then show "\<forall>k v. (k, v) \<in> set r \<and> k \<noteq> ''type'' \<longrightarrow> \<not> falsy v \<and> \<not> length_is_zero v"
    by (auto simp: prune_def)
next
  assume c: "createActivity cfg env w = (w', Inr (Some r))"
    and d: "\<not> rotation_on (detailsRandomMode cfg) (detailsRandomLines cfg) \<and> details cfg = Some []"
  then have "fst (resolveDetails cfg env w) = Some []"
    by (simp add: resolveDetails_def)
  then show "map_of r ''details'' = None"
    using createActivity_lookup[OF c, of "''details''"]
    by (simp add: map_of_set_buttons map_of_set_urls map_of_set_timestamps map_of_base_activity
          str_val_def)
qed

theorem prune_keeps_type_witness:
  "createActivity blank_details_settings sample_env initial_world =
     (initial_world,
      Inr (Some [(''application_id'', JStr ''0''), (''name'', JStr ''App''), (''type'', JNum 0),
                 (''flags'', JNum 1)]))
   \<and> map_of [(''application_id'', JStr ''0''), (''name'', JStr ''App''), (''type'', JNum 0),
              (''flags'', JNum 1)] ''type'' = Some (JNum 0)
   \<and> map_of [(''application_id'', JStr ''0''), (''name'', JStr ''App''), (''type'', JNum 0),
              (''flags'', JNum 1)] ''details'' = None
   \<and> (''type'', JNum 0) \<in> set (prune [(''details'', JStr []), (''type'', JNum 0)])
   \<and> (''details'', JStr []) \<notin> set (prune [(''details'', JStr []), (''type'', JNum 0)])"
proof -
  have c: "createActivity blank_details_settings sample_env initial_world =
     (initial_world,
      Inr (Some [(''application_id'', JStr ''0''), (''name'', JStr ''App''), (''type'', JNum 0),
                 (''flags'', JNum 1)]))"
    by (simp add: blank_details_settings_def eval_defs)
  have d: "\<not> rotation_on (detailsRandomMode blank_details_settings)
               (detailsRandomLines blank_details_settings)
           \<and> details blank_details_settings = Some []"
    by (simp add: blank_details_settings_def no_settings_def rotation_on_def)
  from prune_keeps_type[of "[(''details'', JStr []), (''type'', JNum 0)]"
         blank_details_settings sample_env initial_world initial_world
         "[(''application_id'', JStr ''0''), (''name'', JStr ''App''), (''type'', JNum 0),
           (''flags'', JNum 1)]"] c d
  show ?thesis by (simp add: blank_details_settings_def no_settings_def ActivityType_PLAYING_def)
qed

subsection \<open>The start instant in mode NOW\<close>

text \<open>
  Claim C6, as the code has it. In timestamp mode NOW (and with an application name),
  \<^verbatim>\<open>createActivity\<close> leaves a stored, non-zero anchor as it is and attaches it as
  \<^verbatim>\<open>timestamps.start\<close>; when no anchor is stored (or it is 0), it stores the current
  time as the anchor and attaches that.
\<close>

theorem now_mode_start_is_anchor:
  assumes "truthy_str (appName cfg)" and "timestampMode cfg = Some NOW"
  shows "nowModeStartTime (fst (createActivity cfg env w)) =
           (if truthy_num (nowModeStartTime w) then nowModeStartTime w else Some (dateNow env))
         \<and> (\<forall>w' r. createActivity cfg env w = (w', Inr (Some r)) \<longrightarrow>
               map_of r ''timestamps'' =
                 Some (JObj [(''start'',
                              JNum (if truthy_num (nowModeStartTime w) then the (nowModeStartTime w)
                                    else dateNow env))]))"
proof (intro conjI allI impI)
  show "nowModeStartTime (fst (createActivity cfg env w)) =
           (if truthy_num (nowModeStartTime w) then nowModeStartTime w else Some (dateNow env))"
    using assms by (simp add: createActivity_anchor set_timestamps_def)
next
  fix w' r
  assume c: "createActivity cfg env w = (w', Inr (Some r))"
  have "map_of (fst (set_timestamps cfg env a w)) ''timestamps'' =
          Some (JObj [(''start'',
                       JNum (if truthy_num (nowModeStartTime w) then the (nowModeStartTime w)
                             else dateNow env))])" for a
    using assms(2) by (auto simp: set_timestamps_def update_conv' truthy_num_def split: option.splits)
  then show "map_of r ''timestamps'' =
                 Some (JObj [(''start'',
                              JNum (if truthy_num (nowModeStartTime w) then the (nowModeStartTime w)
                                    else dateNow env))])"
    using createActivity_lookup[OF c, of "''timestamps''"]
    by (simp add: map_of_set_buttons map_of_set_urls)
qed

theorem now_mode_start_is_anchor_witness:
  "truthy_str (appName now_settings) \<and> timestampMode now_settings = Some NOW
   \<and> nowModeStartTime (fst (createActivity now_settings sample_env
                               (initial_world\<lparr>nowModeStartTime := Some 1000\<rparr>))) = Some 1000
   \<and> createActivity now_settings sample_env (initial_world\<lparr>nowModeStartTime := Some 1000\<rparr>) =
       (initial_world\<lparr>nowModeStartTime := Some 1000\<rparr>,
        Inr (Some [(''application_id'', JStr ''0''), (''name'', JStr ''App''), (''type'', JNum 0),
                   (''flags'', JNum 1), (''timestamps'', JObj [(''start'', JNum 1000)])]))"
proof -
  have h: "truthy_str (appName now_settings)" "timestampMode now_settings = Some NOW"
    by (simp_all add: now_settings_def no_settings_def truthy_str_def)
  have c: "createActivity now_settings sample_env (initial_world\<lparr>nowModeStartTime := Some 1000\<rparr>) =
       (initial_world\<lparr>nowModeStartTime := Some 1000\<rparr>,
        Inr (Some [(''application_id'', JStr ''0''), (''name'', JStr ''App''), (''type'', JNum 0),
                   (''flags'', JNum 1), (''timestamps'', JObj [(''start'', JNum 1000)])]))"
    by (simp add: now_settings_def eval_defs)
  from now_mode_start_is_anchor[OF h, of sample_env "initial_world\<lparr>nowModeStartTime := Some 1000\<rparr>"]
    h c show ?thesis by (simp add: truthy_num_def)
qed

text \<open>
  Claim C6 as stated fails: the builder does write the anchor. With no anchor stored, the
  anchor after the build is the clock's 5000.
\<close>

theorem build_initialises_absent_anchor:
  "nowModeStartTime initial_world = None
   \<and> nowModeStartTime (fst (createActivity now_settings sample_env initial_world)) = Some 5000"
  by (simp add: createActivity_anchor now_settings_def no_settings_def truthy_str_def truthy_num_def
        set_timestamps_def initial_world_def sample_env_def)

subsection \<open>A changed pool resets the index\<close>

text \<open>
  Claim C8. In a build with an application name, for each lane whose rotation is on and
  whose freshly parsed pool is not empty: when that pool differs from the recorded one,
  the lane's index is 0 after the build and the fresh pool is recorded; in sequential mode
  the pool is indexed inside its bounds, and the record carries the line at index 0,
  whatever the index was before.
\<close>

theorem changed_pool_resets_index:
  assumes "truthy_str (appName cfg)"
  shows "(rotation_on (detailsRandomMode cfg) (detailsRandomLines cfg)
          \<and> parse_lines (the (detailsRandomLines cfg)) \<noteq> []
          \<and> parse_lines (the (detailsRandomLines cfg)) \<noteq> lastDetailsLines w
          \<longrightarrow> detailsCurrentIndex (fst (createActivity cfg env w)) = 0
              \<and> lastDetailsLines (fst (createActivity cfg env w)) = parse_lines (the (detailsRandomLines cfg))
              \<and> (detailsRandomMode cfg \<noteq> Some Yes \<longrightarrow>
                   0 < length (parse_lines (the (detailsRandomLines cfg)))
                   \<and> (\<forall>w' r. createActivity cfg env w = (w', Inr (Some r)) \<longrightarrow>
                         map_of r ''details'' = Some (JStr (parse_lines (the (detailsRandomLines cfg)) ! 0)))))
       \<and> (rotation_on (stateRandomMode cfg) (stateRandomLines cfg)
          \<and> parse_lines (the (stateRandomLines cfg)) \<noteq> []
          \<and> parse_lines (the (stateRandomLines cfg)) \<noteq> lastStateLines w
          \<longrightarrow> stateCurrentIndex (fst (createActivity cfg env w)) = 0
              \<and> lastStateLines (fst (createActivity cfg env w)) = parse_lines (the (stateRandomLines cfg))
              \<and> (stateRandomMode cfg \<noteq> Some Yes \<longrightarrow>
                   0 < length (parse_lines (the (stateRandomLines cfg)))
                   \<and> (\<forall>w' r. createActivity cfg env w = (w', Inr (Some r)) \<longrightarrow>
                         map_of r ''state'' = Some (JStr (parse_lines (the (stateRandomLines cfg)) ! 0)))))"
proof (intro conjI impI allI; (elim conjE)?)
  assume h: "rotation_on (detailsRandomMode cfg) (detailsRandomLines cfg)"
    "parse_lines (the (detailsRandomLines cfg)) \<noteq> []"
    "parse_lines (the (detailsRandomLines cfg)) \<noteq> lastDetailsLines w"
  show "detailsCurrentIndex (fst (createActivity cfg env w)) = 0"
    using assms resolveDetails_changed(1)[OF h] by (simp add: createActivity_lanes)
  show "lastDetailsLines (fst (createActivity cfg env w)) = parse_lines (the (detailsRandomLines cfg))"
    using assms resolveDetails_changed(2)[OF h] by (simp add: createActivity_lanes)
  show "0 < length (parse_lines (the (detailsRandomLines cfg)))" using h(2) by simp
  fix w' r
  assume seq: "detailsRandomMode cfg \<noteq> Some Yes" and c: "createActivity cfg env w = (w', Inr (Some r))"
  show "map_of r ''details'' = Some (JStr (parse_lines (the (detailsRandomLines cfg)) ! 0))"
    using createActivity_lookup[OF c, of "''details''"] resolveDetails_changed(3)[OF h seq]
      first_line_kept[OF h(2) refl]
    by (simp add: map_of_set_buttons map_of_set_urls map_of_set_timestamps map_of_base_activity)
      (simp add: str_val_def)
next
  assume h: "rotation_on (stateRandomMode cfg) (stateRandomLines cfg)"
    "parse_lines (the (stateRandomLines cfg)) \<noteq> []"
    "parse_lines (the (stateRandomLines cfg)) \<noteq> lastStateLines w"
  show "stateCurrentIndex (fst (createActivity cfg env w)) = 0"
    using assms resolveState_changed(1)[OF h] by (simp add: createActivity_lanes)
  show "lastStateLines (fst (createActivity cfg env w)) = parse_lines (the (stateRandomLines cfg))"
    using assms resolveState_changed(2)[OF h] by (simp add: createActivity_lanes)
  show "0 < length (parse_lines (the (stateRandomLines cfg)))" using h(2) by simp
  fix w' r
  assume seq: "stateRandomMode cfg \<noteq> Some Yes" and c: "createActivity cfg env w = (w', Inr (Some r))"
  show "map_of r ''state'' = Some (JStr (parse_lines (the (stateRandomLines cfg)) ! 0))"
    using createActivity_lookup[OF c, of "''state''"] resolveState_changed(3)[OF h seq]
      first_line_kept[OF h(2) refl]
    by (simp add: map_of_set_buttons map_of_set_urls map_of_set_timestamps map_of_base_activity)
      (simp add: str_val_def)
qed

theorem changed_pool_resets_index_witness:
  "truthy_str (appName two_line_settings)
   \<and> detailsCurrentIndex stale_world = 2 \<and> lastDetailsLines stale_world = [''a'', ''b'', ''c'']
   \<and> parse_lines (the (detailsRandomLines two_line_settings)) = [''p'', ''q'']
   \<and> detailsCurrentIndex (fst (createActivity two_line_settings sample_env stale_world)) = 0
   \<and> stateCurrentIndex (fst (createActivity two_line_settings sample_env stale_world)) = 0
   \<and> snd (createActivity two_line_settings sample_env stale_world) =
       Inr (Some [(''application_id'', JStr ''0''), (''name'', JStr ''App''), (''state'', JStr ''x''),
                  (''details'', JStr ''p''), (''type'', JNum 0), (''flags'', JNum 1)])"
proof -
  have n: "truthy_str (appName two_line_settings)"
    by (simp add: two_line_settings_def no_settings_def truthy_str_def)
  have d: "rotation_on (detailsRandomMode two_line_settings) (detailsRandomLines two_line_settings)"
    "parse_lines (the (detailsRandomLines two_line_settings)) = [''p'', ''q'']"
    "detailsRandomMode two_line_settings \<noteq> Some Yes"
    by (simp_all add: two_line_settings_def no_settings_def rotation_on_def truthy_str_def parse_pq)
  have s: "rotation_on (stateRandomMode two_line_settings) (stateRandomLines two_line_settings)"
    "parse_lines (the (stateRandomLines two_line_settings)) = [''x'', ''y'']"
    "stateRandomMode two_line_settings \<noteq> Some Yes"
    by (simp_all add: two_line_settings_def no_settings_def rotation_on_def truthy_str_def parse_xy)
  have w: "detailsCurrentIndex stale_world = 2" "lastDetailsLines stale_world = [''a'', ''b'', ''c'']"
    "lastStateLines stale_world = [''x'']"
    by (simp_all add: stale_world_def initial_world_def)
  have c: "snd (createActivity two_line_settings sample_env stale_world) =
       Inr (Some [(''application_id'', JStr ''0''), (''name'', JStr ''App''), (''state'', JStr ''x''),
                  (''details'', JStr ''p''), (''type'', JNum 0), (''flags'', JNum 1)])"
    by (simp add: two_line_settings_def stale_world_def eval_defs parse_pq parse_xy
          lines_changed_iff js_index_def)
  from changed_pool_resets_index[OF n, of stale_world sample_env] n d s w c
  show ?thesis by simp
qed

subsection \<open>Stopping twice\<close>

text \<open>
  Claim C1, as the code has it. \<^verbatim>\<open>stop\<close> always returns, and it has no memory of an
  earlier stop: when the asset service answers the lookups of the build whose result is
  discarded, every call of \<^verbatim>\<open>stop\<close> dispatches one event with \<^verbatim>\<open>activity: null\<close>. After
  two consecutive calls there are two more null events than before, the second call
  appends exactly one event, and both timer handles are cleared.
\<close>

theorem stop_again_publishes_again:
  assumes "\<forall>key. \<exists>ids. fetchAssetIds env (appID cfg) [key] = Inr ids"
    and "\<forall>key. \<exists>ids. fetchAssetIds env' (appID cfg') [key] = Inr ids"
  shows "null_events (stop cfg' env' (stop cfg env w)) = null_events w + 2
         \<and> dispatched (stop cfg' env' (stop cfg env w)) =
             dispatched (stop cfg env w)
             @ [\<lparr>ev_type = ''LOCAL_ACTIVITY_UPDATE'', ev_activity = JNull, ev_socketId = ''CustomRPC''\<rparr>]
         \<and> detailsIntervalId (stop cfg' env' (stop cfg env w)) = None
         \<and> stateIntervalId (stop cfg' env' (stop cfg env w)) = None"
  using stop_null_events[OF assms(2), of "stop cfg env w"] stop_null_events[OF assms(1), of w]
    stop_dispatched[OF assms(2), of "stop cfg env w"]
  by (simp add: stop_fields)

theorem stop_again_publishes_again_witness:
  "(\<forall>key. \<exists>ids. fetchAssetIds sample_env (appID image_settings) [key] = Inr ids)
   \<and> null_events initial_world = 0
   \<and> null_events (stop image_settings sample_env (stop image_settings sample_env initial_world)) = 2
   \<and> detailsIntervalId (stop image_settings sample_env (stop image_settings sample_env initial_world)) = None
   \<and> stateIntervalId (stop image_settings sample_env (stop image_settings sample_env initial_world)) = None"
proof -
  have a: "\<forall>key. \<exists>ids. fetchAssetIds sample_env (appID image_settings) [key] = Inr ids"
    by (simp add: sample_env_def)
  have z: "null_events initial_world = 0"
    by (simp add: null_events_def initial_world_def)
  from stop_again_publishes_again[OF a a, of initial_world] a z show ?thesis by simp
qed

text \<open>
  Claim C1 as stated fails: after \<^verbatim>\<open>start\<close> and one \<^verbatim>\<open>stop\<close> the timers and the anchor
  are cleared and one null event has been dispatched; the second \<^verbatim>\<open>stop\<close> dispatches a
  second one.
\<close>

theorem second_stop_publishes_second_null:
  "detailsIntervalId (stop play_settings sample_env (start play_settings sample_env initial_world)) = None
   \<and> stateIntervalId (stop play_settings sample_env (start play_settings sample_env initial_world)) = None
   \<and> nowModeStartTime (stop play_settings sample_env (start play_settings sample_env initial_world)) = None
   \<and> null_events (stop play_settings sample_env (start play_settings sample_env initial_world)) = 1
   \<and> null_events (stop play_settings sample_env
                    (stop play_settings sample_env (start play_settings sample_env initial_world))) = 2"
proof -
  have m: "timestampMode play_settings \<noteq> Some NOW"
    by (simp add: play_settings_def no_settings_def)
  show ?thesis
    using start_play_null_events
    by (simp add: stop_fields stop_anchor_cleared[OF m] stop_null_events[OF sample_env_answers])
qed

subsection \<open>A tick of one lane and the timer of the other\<close>

text \<open>
  Claim C3 says that a tick of the details lane leaves the timer of the state lane alone.
  The code at a world with both lanes armed: after \<^verbatim>\<open>start\<close> the state lane runs the
  timer with handle 4; the tick of the details timer (handle 3) calls \<^verbatim>\<open>setRpc()\<close>, whose
  \<^verbatim>\<open>setupRotationIntervals()\<close> cancels both timers and creates two new ones: the state
  lane now holds handle 6, and the timer 4 is gone from the table of running timers, its
  period started anew.
\<close>

theorem details_tick_rearms_state_lane:
  "detailsIntervalId (start rotating_settings sample_env initial_world) = Some 3
   \<and> stateIntervalId (start rotating_settings sample_env initial_world) = Some 4
   \<and> map_option stateIntervalId
        (fire rotating_settings sample_env 3 (start rotating_settings sample_env initial_world))
      = Some (Some 6)
   \<and> map_option intervals
        (fire rotating_settings sample_env 3 (start rotating_settings sample_env initial_world))
      = Some [(6, \<lparr>t_lane = StateLane, t_mode = No, t_lines = [''x'', ''y''], t_delay = 2000\<rparr>),
              (5, \<lparr>t_lane = DetailsLane, t_mode = No, t_lines = [''a'', ''b'', ''c''], t_delay = 1000\<rparr>)]"
  unfolding tick_details_rotating by (simp add: start_rotating)

subsection \<open>Arming a lane at start\<close>

text \<open>
  Claim C4, as the code has it. For each lane whose arming guard holds and whose pool has
  more than one line, \<^verbatim>\<open>start\<close> records the parsed pool and arms a repeating timer of
  the lane with the configured mode, that pool and a period of interval times 1000 ms, and
  it leaves the lane's index as it was (which is 0 in the module as loaded).
\<close>

theorem start_arms_lane_keeps_index:
  "(arm_guard (detailsRandomMode cfg) (detailsRandomLines cfg) (detailsRandomInterval cfg)
    \<and> 1 < length (parse_lines (the (detailsRandomLines cfg)))
    \<longrightarrow> lastDetailsLines (start cfg env w) = parse_lines (the (detailsRandomLines cfg))
        \<and> detailsCurrentIndex (start cfg env w) = detailsCurrentIndex w
        \<and> (\<exists>h. detailsIntervalId (start cfg env w) = Some h
               \<and> map_of (intervals (start cfg env w)) h =
                   Some \<lparr>t_lane = DetailsLane, t_mode = the (detailsRandomMode cfg),
                         t_lines = parse_lines (the (detailsRandomLines cfg)),
                         t_delay = the (detailsRandomInterval cfg) * 1000\<rparr>))
   \<and> (arm_guard (stateRandomMode cfg) (stateRandomLines cfg) (stateRandomInterval cfg)
      \<and> 1 < length (parse_lines (the (stateRandomLines cfg)))
      \<longrightarrow> lastStateLines (start cfg env w) = parse_lines (the (stateRandomLines cfg))
          \<and> stateCurrentIndex (start cfg env w) = stateCurrentIndex w
          \<and> (\<exists>h. stateIntervalId (start cfg env w) = Some h
                 \<and> map_of (intervals (start cfg env w)) h =
                     Some \<lparr>t_lane = StateLane, t_mode = the (stateRandomMode cfg),
                           t_lines = parse_lines (the (stateRandomLines cfg)),
                           t_delay = the (stateRandomInterval cfg) * 1000\<rparr>))"
proof (intro conjI impI; (elim conjE)?)
  let ?w1 = "if timestampMode cfg = Some NOW then w\<lparr>nowModeStartTime := Some (dateNow env)\<rparr> else w"
  let ?w2 = "setupRotationIntervals cfg ?w1"
  have st: "start cfg env w = fst (setRpc cfg env False ?w2)"
    by (simp add: start_def Let_def)
  {
    assume h: "arm_guard (detailsRandomMode cfg) (detailsRandomLines cfg) (detailsRandomInterval cfg)"
      "1 < length (parse_lines (the (detailsRandomLines cfg)))"
    show "lastDetailsLines (start cfg env w) = parse_lines (the (detailsRandomLines cfg))"
      unfolding st by (rule setRpc_details_armed(1)[OF h])
    show "detailsCurrentIndex (start cfg env w) = detailsCurrentIndex w"
      unfolding st using setRpc_details_armed(2)[OF h, of env ?w2] by simp
    show "\<exists>h. detailsIntervalId (start cfg env w) = Some h
               \<and> map_of (intervals (start cfg env w)) h =
                   Some \<lparr>t_lane = DetailsLane, t_mode = the (detailsRandomMode cfg),
                         t_lines = parse_lines (the (detailsRandomLines cfg)),
                         t_delay = the (detailsRandomInterval cfg) * 1000\<rparr>"
      unfolding st by (rule setRpc_details_armed(3)[OF h])
  }
  {
    assume h: "arm_guard (stateRandomMode cfg) (stateRandomLines cfg) (stateRandomInterval cfg)"
      "1 < length (parse_lines (the (stateRandomLines cfg)))"
    show "lastStateLines (start cfg env w) = parse_lines (the (stateRandomLines cfg))"
      unfolding st by (rule setRpc_state_armed(1)[OF h])
    show "stateCurrentIndex (start cfg env w) = stateCurrentIndex w"
      unfolding st using setRpc_state_armed(2)[OF h, of env ?w2] by simp
    show "\<exists>h. stateIntervalId (start cfg env w) = Some h
                 \<and> map_of (intervals (start cfg env w)) h =
                     Some \<lparr>t_lane = StateLane, t_mode = the (stateRandomMode cfg),
                           t_lines = parse_lines (the (stateRandomLines cfg)),
                           t_delay = the (stateRandomInterval cfg) * 1000\<rparr>"
      unfolding st by (rule setRpc_state_armed(3)[OF h])
  }
qed

theorem start_arms_lane_keeps_index_witness:
  "arm_guard (detailsRandomMode rotating_settings) (detailsRandomLines rotating_settings)
     (detailsRandomInterval rotating_settings)
   \<and> 1 < length (parse_lines (the (detailsRandomLines rotating_settings)))
   \<and> arm_guard (stateRandomMode rotating_settings) (stateRandomLines rotating_settings)
       (stateRandomInterval rotating_settings)
   \<and> 1 < length (parse_lines (the (stateRandomLines rotating_settings)))
   \<and> detailsCurrentIndex stale_world = 2
   \<and> detailsCurrentIndex (start rotating_settings sample_env stale_world) = 2
   \<and> lastDetailsLines (start rotating_settings sample_env stale_world) = [''a'', ''b'', ''c'']
   \<and> (\<exists>h. detailsIntervalId (start rotating_settings sample_env stale_world) = Some h
          \<and> map_of (intervals (start rotating_settings sample_env stale_world)) h =
              Some \<lparr>t_lane = DetailsLane, t_mode = No, t_lines = [''a'', ''b'', ''c''],
                    t_delay = 1000\<rparr>)
   \<and> stateCurrentIndex (start rotating_settings sample_env stale_world) = 1
   \<and> lastStateLines (start rotating_settings sample_env stale_world) = [''x'', ''y'']
   \<and> (\<exists>h. stateIntervalId (start rotating_settings sample_env stale_world) = Some h
          \<and> map_of (intervals (start rotating_settings sample_env stale_world)) h =
              Some \<lparr>t_lane = StateLane, t_mode = No, t_lines = [''x'', ''y''],
                    t_delay = 2000\<rparr>)
   \<and> detailsCurrentIndex (start rotating_settings sample_env initial_world) = 0
   \<and> stateCurrentIndex (start rotating_settings sample_env initial_world) = 0"
proof -
  have m: "the (detailsRandomMode rotating_settings) = No" "the (stateRandomMode rotating_settings) = No"
    "the (detailsRandomInterval rotating_settings) = 1" "the (stateRandomInterval rotating_settings) = 2"
    by (simp_all add: rotating_settings_def no_settings_def)
  have w: "detailsCurrentIndex stale_world = 2" "stateCurrentIndex stale_world = 1"
    "detailsCurrentIndex initial_world = 0" "stateCurrentIndex initial_world = 0"
    by (simp_all add: stale_world_def initial_world_def)
  from start_arms_lane_keeps_index[of rotating_settings sample_env stale_world]
    start_arms_lane_keeps_index[of rotating_settings sample_env initial_world] rotating_armable m w
  show ?thesis by simp
qed

text \<open>
  Claim C4 as stated fails: after a start, one tick of the details lane and a stop, the
  next start arms the details lane with its index still at 1.
\<close>

theorem restart_resumes_at_old_index:
  "map_option
     (detailsCurrentIndex \<circ> start rotating_settings sample_env \<circ> stop rotating_settings sample_env)
     (fire rotating_settings sample_env 3 (start rotating_settings sample_env initial_world))
   = Some 1"
  unfolding tick_details_rotating
  using rotating_armable arm_guard_rotation_on[OF rotating_armable(1)]
  by (simp add: start_details_index stop_details_index)

subsection \<open>The anchor outside mode NOW\<close>

text \<open>
  Claim C5, as the code has it. While the timestamp mode is not NOW, no build, publish
  cycle, start or timer callback changes the Now-Anchor: an anchor that was stored under
  NOW stays stored. \<^verbatim>\<open>stop\<close> is what clears it.
\<close>

theorem anchor_untouched_outside_now:
  assumes "timestampMode cfg \<noteq> Some NOW"
  shows "nowModeStartTime (fst (createActivity cfg env w)) = nowModeStartTime w
         \<and> nowModeStartTime (fst (setRpc cfg env disable w)) = nowModeStartTime w
         \<and> nowModeStartTime (start cfg env w) = nowModeStartTime w
         \<and> nowModeStartTime (callback cfg env t w) = nowModeStartTime w
         \<and> nowModeStartTime (stop cfg env w) = None"
  using assms
  by (simp add: createActivity_anchor_kept setRpc_anchor_kept start_anchor_kept
        callback_anchor_kept stop_anchor_cleared)

theorem anchor_untouched_outside_now_witness:
  "timestampMode none_mode_settings \<noteq> Some NOW
   \<and> nowModeStartTime (initial_world\<lparr>nowModeStartTime := Some 1000\<rparr>) = Some 1000
   \<and> nowModeStartTime (fst (createActivity none_mode_settings sample_env
                               (initial_world\<lparr>nowModeStartTime := Some 1000\<rparr>))) = Some 1000
   \<and> nowModeStartTime (fst (setRpc none_mode_settings sample_env False
                               (initial_world\<lparr>nowModeStartTime := Some 1000\<rparr>))) = Some 1000
   \<and> nowModeStartTime (start none_mode_settings sample_env
                          (initial_world\<lparr>nowModeStartTime := Some 1000\<rparr>)) = Some 1000
   \<and> nowModeStartTime (stop none_mode_settings sample_env
                          (initial_world\<lparr>nowModeStartTime := Some 1000\<rparr>)) = None"
proof -
  have h: "timestampMode none_mode_settings \<noteq> Some NOW"
    by (simp add: none_mode_settings_def now_settings_def no_settings_def)
  from anchor_untouched_outside_now[OF h, of sample_env
         "initial_world\<lparr>nowModeStartTime := Some 1000\<rparr>" False] h
  show ?thesis by simp
qed

text \<open>
  Claim C5 as stated fails: after a start under NOW at clock 5000, the mode is changed to
  NONE and a publish cycle runs; the anchor is still 5000.
\<close>

theorem anchor_outlives_now_mode:
  "timestampMode none_mode_settings \<noteq> Some NOW
   \<and> nowModeStartTime
        (fst (setRpc none_mode_settings sample_env False
               (start now_settings sample_env initial_world))) = Some 5000"
  using start_now_anchor
  by (simp add: setRpc_anchor_kept none_mode_settings_def now_settings_def no_settings_def)

end
